theory Spec2Isabelle
  imports Main
begin

section \<open>Python values and their text forms\<close>

text \<open>
  The program is Python. Its strings are modelled as \<^typ>\<open>string\<close>, one \<^typ>\<open>char\<close> per
  code point, which covers the code points below 256. The values that reach the
  open-typed places of the data model (\<open>parameters\<close>, \<open>value_data\<close>) and the dictionaries
  built by the \<open>to_dict\<close> methods are values of \<open>pyval\<close>; a dictionary keeps its
  insertion order, so it is an association list. Floating-point values are left out.
\<close>

datatype pyval =
    PNone
  | PBool bool
  | PInt int
  | PStr string
  | PList "pyval list"
  | PDict "(string \<times> pyval) list"

type_synonym pydict = "(string \<times> pyval) list"

text \<open>\<open>d.get(k, default)\<close>.\<close>

definition dict_get :: "pydict \<Rightarrow> string \<Rightarrow> pyval \<Rightarrow> pyval" where
  "dict_get d k dflt = (case map_of d k of Some v \<Rightarrow> v | None \<Rightarrow> dflt)"

text \<open>Truth value of an object, as \<open>if x:\<close> and \<open>not x\<close> read it.\<close>

fun py_truthy :: "pyval \<Rightarrow> bool" where
  "py_truthy PNone = False"
| "py_truthy (PBool b) = b"
| "py_truthy (PInt i) = (i \<noteq> 0)"
| "py_truthy (PStr s) = (s \<noteq> [])"
| "py_truthy (PList xs) = (xs \<noteq> [])"
| "py_truthy (PDict kvs) = (kvs \<noteq> [])"

definition hexdigit :: "nat \<Rightarrow> char" where
  "hexdigit n = ''0123456789abcdef'' ! (n mod 16)"

definition hex2 :: "char \<Rightarrow> string" where
  "hex2 c = [hexdigit ((of_char c :: nat) div 16), hexdigit ((of_char c :: nat) mod 16)]"

text \<open>\<open>str.isprintable\<close> on the code points below 256.\<close>

definition py_isprintable :: "char \<Rightarrow> bool" where
  "py_isprintable c =
     (let n = (of_char c :: nat) in (32 \<le> n \<and> n \<le> 126) \<or> (161 \<le> n \<and> n \<noteq> 173))"

text \<open>\<open>repr\<close> of a string: the quote is \<open>'\<close> unless the string holds a \<open>'\<close> and no \<open>"\<close>.\<close>

definition repr_char :: "char \<Rightarrow> char \<Rightarrow> string" where
  "repr_char q c =
     (if c = q \<or> c = CHR 0x5C then [CHR 0x5C, c]
      else if c = CHR 0x09 then [CHR 0x5C, CHR ''t'']
      else if c = CHR 0x0A then [CHR 0x5C, CHR ''n'']
      else if c = CHR 0x0D then [CHR 0x5C, CHR ''r'']
      else if py_isprintable c then [c]
      else [CHR 0x5C, CHR ''x''] @ hex2 c)"

definition py_repr_str :: "string \<Rightarrow> string" where
  "py_repr_str s =
     (let q = (if CHR 0x27 \<in> set s \<and> CHR 0x22 \<notin> set s then CHR 0x22 else CHR 0x27)
      in [q] @ concat (map (repr_char q) s) @ [q])"

function show_nat :: "nat \<Rightarrow> string" where
  "show_nat n =
     (if n < 10 then [hexdigit n] else show_nat (n div 10) @ [hexdigit (n mod 10)])"
  by pat_completeness auto
termination
  by (relation "measure id") auto

declare show_nat.simps [simp del]

definition show_int :: "int \<Rightarrow> string" where
  "show_int i = (if i < 0 then ''-'' @ show_nat (nat (- i)) else show_nat (nat i))"

text \<open>\<open>sep.join(xs)\<close>.\<close>

fun py_join :: "string \<Rightarrow> string list \<Rightarrow> string" where
  "py_join sep [] = []"
| "py_join sep [x] = x"
| "py_join sep (x # y # ys) = x @ sep @ py_join sep (y # ys)"

fun py_repr :: "pyval \<Rightarrow> string" where
  "py_repr PNone = ''None''"
| "py_repr (PBool b) = (if b then ''True'' else ''False'')"
| "py_repr (PInt i) = show_int i"
| "py_repr (PStr s) = py_repr_str s"
| "py_repr (PList xs) = ''['' @ py_join '', '' (map py_repr xs) @ '']''"
| "py_repr (PDict kvs) =
     ''{'' @ py_join '', '' (map (\<lambda>kv. py_repr_str (fst kv) @ '': '' @ py_repr (snd kv)) kvs) @ ''}''"

text \<open>\<open>str(x)\<close>, as an f-string formats a value.\<close>

definition py_str :: "pyval \<Rightarrow> string" where
  "py_str v = (case v of PStr s \<Rightarrow> s | _ \<Rightarrow> py_repr v)"

text \<open>\<open>json.dumps(s)\<close> of a string, with the default \<open>ensure_ascii=True\<close>.\<close>

definition json_char :: "char \<Rightarrow> string" where
  "json_char c =
     (if c = CHR 0x22 then [CHR 0x5C, CHR 0x22]
      else if c = CHR 0x5C then [CHR 0x5C, CHR 0x5C]
      else if c = CHR 0x0A then [CHR 0x5C, CHR ''n'']
      else if c = CHR 0x0D then [CHR 0x5C, CHR ''r'']
      else if c = CHR 0x09 then [CHR 0x5C, CHR ''t'']
      else if c = CHR 0x08 then [CHR 0x5C, CHR ''b'']
      else if c = CHR 0x0C then [CHR 0x5C, CHR ''f'']
      else if 32 \<le> (of_char c :: nat) \<and> (of_char c :: nat) \<le> 126 then [c]
      else [CHR 0x5C, CHR ''u'', CHR ''0'', CHR ''0''] @ hex2 c)"

definition json_dumps_str :: "string \<Rightarrow> string" where
  "json_dumps_str s = [CHR 0x22] @ concat (map json_char s) @ [CHR 0x22]"

text \<open>\<open>s.replace(old, new)\<close> for one-character \<open>old\<close> and \<open>new\<close>.\<close>

definition py_replace_char :: "char \<Rightarrow> char \<Rightarrow> string \<Rightarrow> string" where
  "py_replace_char old new s = map (\<lambda>c. if c = old then new else c) s"

text \<open>\<open>s.strip(chars)\<close>.\<close>

definition py_strip_chars :: "string \<Rightarrow> string \<Rightarrow> string" where
  "py_strip_chars cs s =
     rev (dropWhile (\<lambda>c. c \<in> set cs) (rev (dropWhile (\<lambda>c. c \<in> set cs) s)))"

text \<open>Whitespace as \<open>str.strip()\<close> and \<open>str.isspace\<close> read it, below code point 256.\<close>

definition py_isspace :: "char \<Rightarrow> bool" where
  "py_isspace c =
     (let n = (of_char c :: nat)
      in (9 \<le> n \<and> n \<le> 13) \<or> (28 \<le> n \<and> n \<le> 32) \<or> n = 133 \<or> n = 160)"

definition py_strip :: "string \<Rightarrow> string" where
  "py_strip s = rev (dropWhile py_isspace (rev (dropWhile py_isspace s)))"

text \<open>\<open>sub in s\<close> on strings.\<close>

fun py_contains :: "string \<Rightarrow> string \<Rightarrow> bool" where
  "py_contains sub [] = (sub = [])"
| "py_contains sub (c # cs) = (take (length sub) (c # cs) = sub \<or> py_contains sub cs)"

definition py_endswith :: "string \<Rightarrow> string \<Rightarrow> bool" where
  "py_endswith s suf = (length suf \<le> length s \<and> drop (length s - length suf) s = suf)"

section \<open>The data model (core/models.py)\<close>

datatype ScriptElementType =
    INSTALL_FILE
  | CREATE_DIR
  | CREATE_SHORTCUT
  | EXECUTE_COMMAND
  | SET_REGISTRY
  | CREATE_UNINSTALLER_T
  | SHOW_LICENSE
  | REQUIRE_ADMIN
  | CHECK_DISK_SPACE
  | DOWNLOAD_FILE
  | CREATE_SERVICE
  | SET_ENVIRONMENT
  | RUN_SCRIPT

fun type_value :: "ScriptElementType \<Rightarrow> string" where
  "type_value INSTALL_FILE = ''install_file''"
| "type_value CREATE_DIR = ''create_dir''"
| "type_value CREATE_SHORTCUT = ''create_shortcut''"
| "type_value EXECUTE_COMMAND = ''execute_command''"
| "type_value SET_REGISTRY = ''set_registry''"
| "type_value CREATE_UNINSTALLER_T = ''create_uninstaller''"
| "type_value SHOW_LICENSE = ''show_license''"
| "type_value REQUIRE_ADMIN = ''require_admin''"
| "type_value CHECK_DISK_SPACE = ''check_disk_space''"
| "type_value DOWNLOAD_FILE = ''download_file''"
| "type_value CREATE_SERVICE = ''create_service''"
| "type_value SET_ENVIRONMENT = ''set_environment''"
| "type_value RUN_SCRIPT = ''run_script''"

text \<open>
  Several classes share field names (\<open>name\<close>, \<open>version\<close>, \<open>description\<close>), so the
  fields of the entry classes carry a prefix; those of \<open>ProjectConfig\<close> keep their names.
\<close>

record ScriptElement =
  se_type :: ScriptElementType
  se_name :: string
  se_parameters :: pydict
  se_id :: string
  se_enabled :: bool
  se_critical :: bool

record ShortcutConfig =
  sc_name :: string
  sc_target :: string
  sc_icon :: string
  sc_working_dir :: string
  sc_arguments :: string
  sc_location :: string
  sc_description :: string

record RegistryEntry =
  re_hive :: string
  re_key :: string
  re_value_name :: string
  re_value_type :: string
  re_value_data :: pyval
  re_action :: string

record FileEntry =
  fe_source_path :: string
  fe_install_path :: string
  fe_is_binary :: bool
  fe_is_directory :: bool
  fe_compress :: bool
  fe_hash :: string
  fe_version :: string
  fe_description :: string

record Dependency =
  dep_name :: string
  dep_version :: string
  dep_installer_path :: string
  dep_check_command :: string
  dep_required :: bool

record ProjectConfig =
  name :: string
  version :: string
  author :: string
  company :: string
  description :: string
  copyright :: string
  icon_path :: string
  output_dir :: string
  default_install_dir :: string
  python_version :: string
  require_admin :: bool
  compression :: string
  license_enabled :: bool
  license_text :: string
  license_file :: string
  create_uninstaller :: bool
  silent_mode :: bool
  overwrite_existing :: bool
  installer_title :: string
  installer_style :: string
  background_color :: string
  text_color :: string
  button_color :: string
  custom_css :: string
  onefile :: bool
  console :: bool
  hidden_imports :: "string list"
  additional_hooks :: "string list"
  exclude_modules :: "string list"
  script_elements :: "ScriptElement list"
  shortcuts :: "ShortcutConfig list"
  registry_entries :: "RegistryEntry list"
  dependencies :: "Dependency list"
  search_paths :: "string list"
  files :: "FileEntry list"
  sign_installer :: bool
  certificate_path :: string
  certificate_password :: string
  timestamp_server :: string
  created :: string
  modified :: string

subsection \<open>\<open>to_dict\<close>\<close>

definition ScriptElement_to_dict :: "ScriptElement \<Rightarrow> pydict" where
  "ScriptElement_to_dict e =
     [(''type'', PStr (type_value (se_type e))),
      (''name'', PStr (se_name e)),
      (''parameters'', PDict (se_parameters e)),
      (''id'', PStr (se_id e)),
      (''enabled'', PBool (se_enabled e)),
      (''critical'', PBool (se_critical e))]"

definition ShortcutConfig_to_dict :: "ShortcutConfig \<Rightarrow> pydict" where
  "ShortcutConfig_to_dict s =
     [(''name'', PStr (sc_name s)),
      (''target'', PStr (sc_target s)),
      (''icon'', PStr (sc_icon s)),
      (''working_dir'', PStr (sc_working_dir s)),
      (''arguments'', PStr (sc_arguments s)),
      (''location'', PStr (sc_location s)),
      (''description'', PStr (sc_description s))]"

definition RegistryEntry_to_dict :: "RegistryEntry \<Rightarrow> pydict" where
  "RegistryEntry_to_dict r =
     [(''hive'', PStr (re_hive r)),
      (''key'', PStr (re_key r)),
      (''value_name'', PStr (re_value_name r)),
      (''value_type'', PStr (re_value_type r)),
      (''value_data'', re_value_data r),
      (''action'', PStr (re_action r))]"

definition FileEntry_to_dict :: "FileEntry \<Rightarrow> pydict" where
  "FileEntry_to_dict f =
     [(''source_path'', PStr (fe_source_path f)),
      (''install_path'', PStr (fe_install_path f)),
      (''is_binary'', PBool (fe_is_binary f)),
      (''is_directory'', PBool (fe_is_directory f)),
      (''compress'', PBool (fe_compress f)),
      (''hash'', PStr (fe_hash f)),
      (''version'', PStr (fe_version f)),
      (''description'', PStr (fe_description f))]"

definition Dependency_to_dict :: "Dependency \<Rightarrow> pydict" where
  "Dependency_to_dict d =
     [(''name'', PStr (dep_name d)),
      (''version'', PStr (dep_version d)),
      (''installer_path'', PStr (dep_installer_path d)),
      (''check_command'', PStr (dep_check_command d)),
      (''required'', PBool (dep_required d))]"

section \<open>Helpers (utils/helpers.py)\<close>

text \<open>\<open>sanitize_filename\<close>: every character of \<open><>:"/\|?*\<close> becomes \<open>_\<close>, then dots and spaces
  are stripped from both ends, and an empty result becomes \<open>unnamed\<close>.\<close>

definition invalid_chars :: string where
  \<open>invalid_chars = ''<>:"/'' @ [CHR 0x5C] @ ''|?*''\<close>

definition sanitize_filename :: "string \<Rightarrow> string" where
  "sanitize_filename filename =
     (let replaced = fold (\<lambda>ch s. py_replace_char ch CHR ''_'' s) invalid_chars filename;
          stripped = py_strip_chars ''. '' replaced
      in if stripped = [] then ''unnamed'' else stripped)"

section \<open>The synthesizers (core/generator.py)\<close>

subsection \<open>\<open>_generate_spec_file\<close>\<close>

text \<open>The template of the build spec: the text before and after the \<open>name_safe\<close> field.\<close>

definition spec_file_head :: string where
  \<open>spec_file_head =
     ''# -*- mode: python ; coding: utf-8 -*-\<newline>'' @
     ''\<newline>'' @
     ''block_cipher = None\<newline>'' @
     ''\<newline>'' @
     ''a = Analysis(\<newline>'' @
     ''    [\'installer.py\'],\<newline>'' @
     ''    pathex=[],\<newline>'' @
     ''    binaries=[],\<newline>'' @
     ''    datas=[],\<newline>'' @
     ''    hiddenimports=[\'win32com.client\', \'winreg\'],\<newline>'' @
     ''    hookspath=[],\<newline>'' @
     ''    hooksconfig={},\<newline>'' @
     ''    runtime_hooks=[],\<newline>'' @
     ''    excludes=[],\<newline>'' @
     ''    win_no_prefer_redirects=False,\<newline>'' @
     ''    win_private_assemblies=False,\<newline>'' @
     ''    cipher=block_cipher,\<newline>'' @
     ''    noarchive=False,\<newline>'' @
     '')\<newline>'' @
     ''\<newline>'' @
     ''pyz = PYZ(a.pure, a.zipped_data, cipher=block_cipher)\<newline>'' @
     ''\<newline>'' @
     ''exe = EXE(\<newline>'' @
     ''    pyz,\<newline>'' @
     ''    a.scripts,\<newline>'' @
     ''    a.binaries,\<newline>'' @
     ''    a.zipfiles,\<newline>'' @
     ''    a.datas,\<newline>'' @
     ''    [],\<newline>'' @
     ''    name='' @
     [CHR 0x27]\<close>

definition spec_file_tail :: string where
  \<open>spec_file_tail =
     ''_Setup\',\<newline>'' @
     ''    debug=False,\<newline>'' @
     ''    bootloader_ignore_signals=False,\<newline>'' @
     ''    strip=False,\<newline>'' @
     ''    upx=True,\<newline>'' @
     ''    upx_exclude=[],\<newline>'' @
     ''    runtime_tmpdir=None,\<newline>'' @
     ''    console=False,\<newline>'' @
     ''    disable_windowed_traceback=False,\<newline>'' @
     ''    target_arch=None,\<newline>'' @
     ''    codesign_identity=None,\<newline>'' @
     ''    entitlements_file=None,\<newline>'' @
     '')\<newline>''\<close>

definition name_safe :: "ProjectConfig \<Rightarrow> string" where
  "name_safe p = py_replace_char CHR ''-'' CHR ''_'' (py_replace_char CHR '' '' CHR ''_'' (name p))"

definition generate_spec_file :: "ProjectConfig \<Rightarrow> string" where
  "generate_spec_file p = spec_file_head @ name_safe p @ spec_file_tail"

subsection \<open>\<open>_generate_installer_script\<close>\<close>

text \<open>
  The module-level constants of the emitted program. The program text assigns them the
  \<open>repr\<close> of the lists of dictionaries and the JSON form of the three strings;
  \<open>CREATE_UNINSTALLER = True\<close> is fixed text of the template.
\<close>

record installer_data =
  FILES_DATA :: "pydict list"
  SHORTCUTS :: "pydict list"
  REGISTRY_ENTRIES :: "pydict list"
  SCRIPT_ELEMENTS :: "pydict list"
  DEPENDENCIES :: "pydict list"
  PROJECT_NAME :: string
  PROJECT_VERSION :: string
  PROJECT_DESCRIPTION :: string
  CREATE_UNINSTALLER :: bool

definition installer_constants :: "ProjectConfig \<Rightarrow> installer_data" where
  "installer_constants p =
     \<lparr> FILES_DATA = map FileEntry_to_dict (files p),
       SHORTCUTS = map ShortcutConfig_to_dict (shortcuts p),
       REGISTRY_ENTRIES = map RegistryEntry_to_dict (registry_entries p),
       SCRIPT_ELEMENTS = map ScriptElement_to_dict (script_elements p),
       DEPENDENCIES = map Dependency_to_dict (dependencies p),
       PROJECT_NAME = (if name p \<noteq> [] then name p else ''My Application''),
       PROJECT_VERSION = version p,
       PROJECT_DESCRIPTION = (if description p \<noteq> [] then description p else []),
       CREATE_UNINSTALLER = True \<rparr>"

definition repr_dicts :: "pydict list \<Rightarrow> string" where
  "repr_dicts ds = py_repr (PList (map PDict ds))"

text \<open>The fixed text of the template, in three parts.\<close>

definition installer_script_head :: string where
  \<open>installer_script_head =
     ''#!/usr/bin/env python3\<newline>'' @
     ''# -*- coding: utf-8 -*-\<newline>'' @
     ''\<newline>'' @
     ''import os\<newline>'' @
     ''import sys\<newline>'' @
     ''import shutil\<newline>'' @
     ''import subprocess\<newline>'' @
     ''import winreg\<newline>'' @
     ''from pathlib import Path\<newline>'' @
     ''from PyQt6.QtWidgets import (\<newline>'' @
     ''    QApplication, QMainWindow, QWidget, QVBoxLayout,\<newline>'' @
     ''    QLabel, QPushButton, QProgressBar, QFileDialog, QMessageBox\<newline>'' @
     '')\<newline>'' @
     ''from PyQt6.QtCore import Qt, QThread, pyqtSignal\<newline>'' @
     ''\<newline>'' @
     ''FILES_DATA = ''\<close>

definition install_thread_source :: string where
  \<open>install_thread_source =
     ''class InstallThread(QThread):\<newline>'' @
     ''    """Worker thread for installation process"""\<newline>'' @
     ''    progress = pyqtSignal(int, str)\<newline>'' @
     ''    finished_signal = pyqtSignal(bool, str)\<newline>'' @
     ''\<newline>'' @
     ''    def __init__(self, install_path):\<newline>'' @
     ''        super().__init__()\<newline>'' @
     ''        self.install_path = install_path\<newline>'' @
     ''\<newline>'' @
     ''    def run(self):\<newline>'' @
     ''        try:\<newline>'' @
     ''            # Create install directory\<newline>'' @
     ''            os.makedirs(self.install_path, exist_ok=True)\<newline>'' @
     ''            self.progress.emit(10, "Created installation directory")\<newline>'' @
     ''\<newline>'' @
     ''            # Install dependencies\<newline>'' @
     ''            if DEPENDENCIES:\<newline>'' @
     ''                self.progress.emit(20, "Installing dependencies...")\<newline>'' @
     ''                for dep in DEPENDENCIES:\<newline>'' @
     ''                    self._install_dependency(dep)\<newline>'' @
     ''\<newline>'' @
     ''            # Copy files\<newline>'' @
     ''            self.progress.emit(40, "Copying files...")\<newline>'' @
     ''            for file_info in FILES_DATA:\<newline>'' @
     ''                self._copy_file(file_info)\<newline>'' @
     ''\<newline>'' @
     ''            # Create shortcuts\<newline>'' @
     ''            self.progress.emit(60, "Creating shortcuts...")\<newline>'' @
     ''            for shortcut in SHORTCUTS:\<newline>'' @
     ''                self._create_shortcut(shortcut)\<newline>'' @
     ''\<newline>'' @
     ''            # Apply registry entries\<newline>'' @
     ''            self.progress.emit(70, "Applying registry entries...")\<newline>'' @
     ''            for reg_entry in REGISTRY_ENTRIES:\<newline>'' @
     ''                self._apply_registry(reg_entry)\<newline>'' @
     ''\<newline>'' @
     ''            # Run post-install scripts\<newline>'' @
     ''            self.progress.emit(80, "Running post-install scripts...")\<newline>'' @
     ''            for script in SCRIPT_ELEMENTS:\<newline>'' @
     ''                if script.get(\'event\') == \'post_install\':\<newline>'' @
     ''                    self._run_script(script)\<newline>'' @
     ''\<newline>'' @
     ''            # Create uninstaller\<newline>'' @
     ''            if CREATE_UNINSTALLER:\<newline>'' @
     ''                self.progress.emit(90, "Creating uninstaller...")\<newline>'' @
     ''                self._create_uninstaller()\<newline>'' @
     ''\<newline>'' @
     ''            self.progress.emit(100, "Installation complete!")\<newline>'' @
     ''            self.finished_signal.emit(True, "Installation completed successfully!")\<newline>'' @
     ''\<newline>'' @
     ''        except Exception as e:\<newline>'' @
     ''            self.finished_signal.emit(False, f"Installation failed: {str(e)}")\<newline>'' @
     ''\<newline>'' @
     ''    def _install_dependency(self, dep):\<newline>'' @
     ''        """Install a dependency using pip or system command"""\<newline>'' @
     ''        dep_type = dep.get(\'type\', \'pip\')\<newline>'' @
     ''        name = dep.get(\'name\', '' @
     [CHR 0x27] @
     ''\')\<newline>'' @
     ''        \<newline>'' @
     ''        if dep_type == \'pip\' and name:\<newline>'' @
     ''            subprocess.run([sys.executable, \'-m\', \'pip\', \'install\', name], \<newline>'' @
     ''                         check=True, capture_output=True)\<newline>'' @
     ''\<newline>'' @
     ''    def _copy_file(self, file_info):\<newline>'' @
     ''        """Copy a file to the installation directory"""\<newline>'' @
     ''        source = file_info.get(\'source\', '' @
     [CHR 0x27] @
     ''\')\<newline>'' @
     ''        dest = file_info.get(\'destination\', '' @
     [CHR 0x27] @
     ''\')\<newline>'' @
     ''        \<newline>'' @
     ''        if not source or not dest:\<newline>'' @
     ''            return\<newline>'' @
     ''            \<newline>'' @
     ''        dest_path = os.path.join(self.install_path, dest)\<newline>'' @
     ''        os.makedirs(os.path.dirname(dest_path), exist_ok=True)\<newline>'' @
     ''        \<newline>'' @
     ''        if os.path.isfile(source):\<newline>'' @
     ''            shutil.copy2(source, dest_path)\<newline>'' @
     ''        elif os.path.isdir(source):\<newline>'' @
     ''            if os.path.exists(dest_path):\<newline>'' @
     ''                shutil.rmtree(dest_path)\<newline>'' @
     ''            shutil.copytree(source, dest_path)\<newline>'' @
     ''\<newline>'' @
     ''    def _create_shortcut(self, shortcut):\<newline>'' @
     ''        """Create a Windows shortcut"""\<newline>'' @
     ''        try:\<newline>'' @
     ''            import win32com.client\<newline>'' @
     ''            shell = win32com.client.Dispatch("WScript.Shell")\<newline>'' @
     ''            \<newline>'' @
     ''            name = shortcut.get(\'name\', '' @
     [CHR 0x27] @
     ''\')\<newline>'' @
     ''            target = shortcut.get(\'target\', '' @
     [CHR 0x27] @
     ''\')\<newline>'' @
     ''            location = shortcut.get(\'location\', \'desktop\')\<newline>'' @
     ''            \<newline>'' @
     ''            if location == \'desktop\':\<newline>'' @
     ''                shortcut_path = os.path.join(os.path.expanduser(\'~\'), \'Desktop\', f"{name}.lnk")\<newline>'' @
     ''            elif location == \'start_menu\':\<newline>'' @
     ''                shortcut_path = os.path.join(os.environ[\'APPDATA\'], \<newline>'' @
     ''                                            \'Microsoft\', \'Windows\', \'Start Menu\', \<newline>'' @
     ''                                            \'Programs\', f"{name}.lnk")\<newline>'' @
     ''            else:\<newline>'' @
     ''                return\<newline>'' @
     ''            \<newline>'' @
     ''            target_path = os.path.join(self.install_path, target)\<newline>'' @
     ''            link = shell.CreateShortCut(shortcut_path)\<newline>'' @
     ''            link.Targetpath = target_path\<newline>'' @
     ''            link.WorkingDirectory = os.path.dirname(target_path)\<newline>'' @
     ''            link.save()\<newline>'' @
     ''        except ImportError:\<newline>'' @
     ''            pass  # win32com not available\<newline>'' @
     ''\<newline>'' @
     ''    def _apply_registry(self, reg_entry):\<newline>'' @
     ''        """Apply a registry entry"""\<newline>'' @
     ''        try:\<newline>'' @
     ''            root = reg_entry.get(\'root\', \'HKEY_CURRENT_USER\')\<newline>'' @
     ''            key_path = reg_entry.get(\'key\', '' @
     [CHR 0x27] @
     ''\')\<newline>'' @
     ''            value_name = reg_entry.get(\'name\', '' @
     [CHR 0x27] @
     ''\')\<newline>'' @
     ''            value_data = reg_entry.get(\'value\', '' @
     [CHR 0x27] @
     ''\')\<newline>'' @
     ''            value_type = reg_entry.get(\'type\', \'REG_SZ\')\<newline>'' @
     ''            \<newline>'' @
     ''            root_key = getattr(winreg, root, winreg.HKEY_CURRENT_USER)\<newline>'' @
     ''            \<newline>'' @
     ''            key = winreg.CreateKey(root_key, key_path)\<newline>'' @
     ''            \<newline>'' @
     ''            if value_type == \'REG_DWORD\':\<newline>'' @
     ''                winreg.SetValueEx(key, value_name, 0, winreg.REG_DWORD, int(value_data))\<newline>'' @
     ''            else:\<newline>'' @
     ''                winreg.SetValueEx(key, value_name, 0, winreg.REG_SZ, str(value_data))\<newline>'' @
     ''            \<newline>'' @
     ''            winreg.CloseKey(key)\<newline>'' @
     ''        except Exception:\<newline>'' @
     ''            pass  # Silently fail on registry errors\<newline>'' @
     ''\<newline>'' @
     ''    def _run_script(self, script):\<newline>'' @
     ''        """Run a post-install script"""\<newline>'' @
     ''        script_type = script.get(\'type\', \'python\')\<newline>'' @
     ''        content = script.get(\'content\', '' @
     [CHR 0x27] @
     ''\')\<newline>'' @
     ''        \<newline>'' @
     ''        if script_type == \'python\' and content:\<newline>'' @
     ''            exec(content)\<newline>'' @
     ''        elif script_type == \'cmd\' and content:\<newline>'' @
     ''            subprocess.run(content, shell=True, cwd=self.install_path)\<newline>'' @
     ''\<newline>'' @
     ''    def _create_uninstaller(self):\<newline>'' @
     ''        """Create an uninstaller executable"""\<newline>'' @
     ''        uninstall_script = f'' @
     [CHR 0x27] @
     [CHR 0x27] @
     ''\'\<newline>'' @
     ''import os\<newline>'' @
     ''import sys\<newline>'' @
     ''import shutil\<newline>'' @
     ''from PyQt6.QtWidgets import QApplication, QMessageBox\<newline>'' @
     ''\<newline>'' @
     ''def uninstall():\<newline>'' @
     ''    reply = QMessageBox.question(None, "Uninstall", \<newline>'' @
     ''                                "Are you sure you want to uninstall {PROJECT_NAME}?",\<newline>'' @
     ''                                QMessageBox.StandardButton.Yes | QMessageBox.StandardButton.No)\<newline>'' @
     ''    \<newline>'' @
     ''    if reply == QMessageBox.StandardButton.Yes:\<newline>'' @
     ''        try:\<newline>'' @
     ''            install_dir = r"{self.install_path}"\<newline>'' @
     ''            if os.path.exists(install_dir):\<newline>'' @
     ''                shutil.rmtree(install_dir)\<newline>'' @
     ''            QMessageBox.information(None, "Success", "Uninstallation complete!")\<newline>'' @
     ''        except Exception as ex:\<newline>'' @
     ''            QMessageBox.critical(None, "Error", f"Uninstallation failed: {{ex}}")\<newline>'' @
     ''\<newline>'' @
     ''if __name__ == "__main__":\<newline>'' @
     ''    app = QApplication(sys.argv)\<newline>'' @
     ''    uninstall()\<newline>'' @
     [CHR 0x27] @
     [CHR 0x27] @
     ''\'\<newline>'' @
     ''        uninstall_path = os.path.join(self.install_path, "uninstall.py")\<newline>'' @
     ''        with open(uninstall_path, \'w\') as f:\<newline>'' @
     ''            f.write(uninstall_script)\<newline>'' @
     ''\<newline>'' @
     ''\<newline>''\<close>

definition installer_window_source :: string where
  \<open>installer_window_source =
     ''class InstallerWindow(QMainWindow):\<newline>'' @
     ''    def __init__(self):\<newline>'' @
     ''        super().__init__()\<newline>'' @
     ''        self.setWindowTitle(f"{PROJECT_NAME} Setup")\<newline>'' @
     ''        self.setFixedSize(580, 420)\<newline>'' @
     ''        self.install_thread = None\<newline>'' @
     ''\<newline>'' @
     ''        central = QWidget()\<newline>'' @
     ''        self.setCentralWidget(central)\<newline>'' @
     ''        layout = QVBoxLayout(central)\<newline>'' @
     ''        layout.setSpacing(15)\<newline>'' @
     ''        layout.setContentsMargins(30, 30, 30, 30)\<newline>'' @
     ''\<newline>'' @
     ''        title = QLabel(f"<h2>{PROJECT_NAME}</h2><h4>Version {PROJECT_VERSION}</h4>")\<newline>'' @
     ''        title.setAlignment(Qt.AlignmentFlag.AlignCenter)\<newline>'' @
     ''        layout.addWidget(title)\<newline>'' @
     ''\<newline>'' @
     ''        if PROJECT_DESCRIPTION:\<newline>'' @
     ''            desc = QLabel(PROJECT_DESCRIPTION)\<newline>'' @
     ''            desc.setWordWrap(True)\<newline>'' @
     ''            desc.setAlignment(Qt.AlignmentFlag.AlignCenter)\<newline>'' @
     ''            layout.addWidget(desc)\<newline>'' @
     ''\<newline>'' @
     ''        layout.addStretch()\<newline>'' @
     ''\<newline>'' @
     ''        self.install_btn = QPushButton("Install")\<newline>'' @
     ''        self.install_btn.setMinimumHeight(40)\<newline>'' @
     ''        self.install_btn.clicked.connect(self.install)\<newline>'' @
     ''        layout.addWidget(self.install_btn)\<newline>'' @
     ''\<newline>'' @
     ''        self.cancel_btn = QPushButton("Cancel")\<newline>'' @
     ''        self.cancel_btn.setMinimumHeight(40)\<newline>'' @
     ''        self.cancel_btn.clicked.connect(self.close)\<newline>'' @
     ''        layout.addWidget(self.cancel_btn)\<newline>'' @
     ''\<newline>'' @
     ''        self.progress = QProgressBar()\<newline>'' @
     ''        self.progress.setVisible(False)\<newline>'' @
     ''        self.progress.setMinimumHeight(30)\<newline>'' @
     ''        layout.addWidget(self.progress)\<newline>'' @
     ''\<newline>'' @
     ''        self.status = QLabel("")\<newline>'' @
     ''        self.status.setAlignment(Qt.AlignmentFlag.AlignCenter)\<newline>'' @
     ''        layout.addWidget(self.status)\<newline>'' @
     ''\<newline>'' @
     ''    def install(self):\<newline>'' @
     ''        default_path = os.path.join(\<newline>'' @
     ''            os.environ.get("ProgramFiles", "C:'' @
     [CHR 0x5C] @
     [CHR 0x5C] @
     ''Program Files"), \<newline>'' @
     ''            PROJECT_NAME.replace(" ", "_")\<newline>'' @
     ''        )\<newline>'' @
     ''        \<newline>'' @
     ''        path = QFileDialog.getExistingDirectory(\<newline>'' @
     ''            self,\<newline>'' @
     ''            "Select Install Location",\<newline>'' @
     ''            default_path\<newline>'' @
     ''        )\<newline>'' @
     ''        \<newline>'' @
     ''        if not path:\<newline>'' @
     ''            return\<newline>'' @
     ''\<newline>'' @
     ''        self.install_btn.setEnabled(False)\<newline>'' @
     ''        self.cancel_btn.setEnabled(False)\<newline>'' @
     ''        self.progress.setVisible(True)\<newline>'' @
     ''        self.progress.setValue(0)\<newline>'' @
     ''\<newline>'' @
     ''        self.install_thread = InstallThread(path)\<newline>'' @
     ''        self.install_thread.progress.connect(self.update_progress)\<newline>'' @
     ''        self.install_thread.finished_signal.connect(self.install_finished)\<newline>'' @
     ''        self.install_thread.start()\<newline>'' @
     ''\<newline>'' @
     ''    def update_progress(self, value, message):\<newline>'' @
     ''        self.progress.setValue(value)\<newline>'' @
     ''        self.status.setText(message)\<newline>'' @
     ''\<newline>'' @
     ''    def install_finished(self, success, message):\<newline>'' @
     ''        if success:\<newline>'' @
     ''            QMessageBox.information(self, "Success", message)\<newline>'' @
     ''            self.close()\<newline>'' @
     ''        else:\<newline>'' @
     ''            QMessageBox.critical(self, "Error", message)\<newline>'' @
     ''            self.install_btn.setEnabled(True)\<newline>'' @
     ''            self.cancel_btn.setEnabled(True)\<newline>'' @
     ''            self.progress.setVisible(False)\<newline>'' @
     ''\<newline>'' @
     ''\<newline>'' @
     ''def main():\<newline>'' @
     ''    app = QApplication(sys.argv)\<newline>'' @
     ''    app.setStyle("Fusion")\<newline>'' @
     ''    win = InstallerWindow()\<newline>'' @
     ''    win.show()\<newline>'' @
     ''    sys.exit(app.exec())\<newline>'' @
     ''\<newline>'' @
     ''\<newline>'' @
     ''if __name__ == "__main__":\<newline>'' @
     ''    main()\<newline>''\<close>

definition generate_installer_script :: "ProjectConfig \<Rightarrow> string" where
  "generate_installer_script p =
     (let c = installer_constants p in
      installer_script_head @ repr_dicts (FILES_DATA c) @
      ''\<newline>SHORTCUTS = '' @ repr_dicts (SHORTCUTS c) @
      ''\<newline>REGISTRY_ENTRIES = '' @ repr_dicts (REGISTRY_ENTRIES c) @
      ''\<newline>SCRIPT_ELEMENTS = '' @ repr_dicts (SCRIPT_ELEMENTS c) @
      ''\<newline>DEPENDENCIES = '' @ repr_dicts (DEPENDENCIES c) @
      ''\<newline>\<newline>PROJECT_NAME = '' @ json_dumps_str (PROJECT_NAME c) @
      ''\<newline>PROJECT_VERSION = '' @ json_dumps_str (PROJECT_VERSION c) @
      ''\<newline>PROJECT_DESCRIPTION = '' @ json_dumps_str (PROJECT_DESCRIPTION c) @
      ''\<newline>\<newline>CREATE_UNINSTALLER = '' @ py_repr (PBool (CREATE_UNINSTALLER c)) @
      ''\<newline>\<newline>\<newline>'' @ install_thread_source @ installer_window_source)"

section \<open>Statements with exceptions\<close>

text \<open>
  An exception is a value: its class, as far as an \<open>except\<close> clause of the program tells
  classes apart, and \<open>str(e)\<close>. A statement takes the state and returns the exception it
  raised (\<open>None\<close> when it completed) and the state it left.
\<close>

datatype exc = ImportError string | Error string

fun exc_str :: "exc \<Rightarrow> string" where
  "exc_str (ImportError m) = m"
| "exc_str (Error m) = m"

type_synonym 's stmt = "'s \<Rightarrow> exc option \<times> 's"

definition skip :: "'s stmt" where
  "skip s = (None, s)"

definition raise_exc :: "exc \<Rightarrow> 's stmt" where
  "raise_exc x s = (Some x, s)"

fun seq_run :: "'s stmt list \<Rightarrow> 's stmt" where
  "seq_run [] s = (None, s)"
| "seq_run (m # ms) s = (case m s of (None, s') \<Rightarrow> seq_run ms s' | (Some x, s') \<Rightarrow> (Some x, s'))"

definition for_each :: "'a list \<Rightarrow> ('a \<Rightarrow> 's stmt) \<Rightarrow> 's stmt" where
  "for_each xs body = seq_run (map body xs)"

definition if_run :: "('s \<Rightarrow> bool) \<Rightarrow> 's stmt \<Rightarrow> 's stmt \<Rightarrow> 's stmt" where
  "if_run b m1 m2 s = (if b s then m1 s else m2 s)"

text \<open>\<open>try: m except Exception: pass\<close> and \<open>try: m except ImportError: pass\<close>.\<close>

definition try_except_pass :: "'s stmt \<Rightarrow> 's stmt" where
  "try_except_pass m s = (case m s of (Some x, s') \<Rightarrow> (None, s') | (None, s') \<Rightarrow> (None, s'))"

definition try_except_ImportError_pass :: "'s stmt \<Rightarrow> 's stmt" where
  "try_except_ImportError_pass m s =
     (case m s of
        (Some (ImportError msg), s') \<Rightarrow> (None, s')
      | (Some (Error msg), s') \<Rightarrow> (Some (Error msg), s')
      | (None, s') \<Rightarrow> (None, s'))"

section \<open>The emitted installer program (the template of \<open>_generate_installer_script\<close>)\<close>

text \<open>
  The install routine of the emitted program, \<open>InstallThread.run\<close>, reads the module-level
  constants and calls the operating system. A run is modelled by its trace: the signals
  it emits and the calls it makes, in order. What a call does is the platform's: the
  platform says, from the trace so far, whether a call raises and what a query returns.
\<close>

datatype reg_type = REG_DWORD | REG_SZ

datatype action =
    MakeDirs string
  | PipInstall pyval
  | Copy2 pyval string
  | RmTree string
  | CopyTree pyval string
  | ImportWin32com
  | DispatchShell
  | SaveShortcut string string string
  | RegCreateKey string pyval
  | RegSetValueEx string pyval pyval reg_type pyval
  | RegCloseKey string pyval
  | ExecPython pyval
  | ShellRun pyval string
  | WriteFile string string

datatype ievent =
    Progress int string
  | Call action
  | FinishedSignal bool string

record platform =
  raises :: "ievent list \<Rightarrow> action \<Rightarrow> exc option"
  path_join :: "string \<Rightarrow> string \<Rightarrow> string"
  path_dirname :: "string \<Rightarrow> string"
  isfile :: "ievent list \<Rightarrow> pyval \<Rightarrow> bool"
  isdir :: "ievent list \<Rightarrow> pyval \<Rightarrow> bool"
  path_exists :: "ievent list \<Rightarrow> string \<Rightarrow> bool"
  expanduser_home :: string
  environ_APPDATA :: "string option"
  winreg_hasattr :: "string \<Rightarrow> bool"
  int_of :: "pyval \<Rightarrow> exc + int"
  type_error :: "pyval \<Rightarrow> exc"

text \<open>
  \<open>raises\<close>: the exception a call raises after the given trace, if any.
  \<open>int_of\<close>: the builtin \<open>int(x)\<close>. \<open>type_error\<close>: the exception raised when a value that
  is not a string stands where the library needs one. The registry root is the attribute
  of \<open>winreg\<close> with the given name, written by that name.
\<close>

definition emit :: "ievent \<Rightarrow> ievent list stmt" where
  "emit e tr = (None, tr @ [e])"

definition call :: "platform \<Rightarrow> action \<Rightarrow> ievent list stmt" where
  "call pf a tr = (raises pf tr a, tr @ [Call a])"

text \<open>\<open>os.path.join(a, v)\<close> for a string \<open>a\<close> and a value \<open>v\<close> read from a dictionary.\<close>

definition join_value :: "platform \<Rightarrow> string \<Rightarrow> pyval \<Rightarrow> exc + string" where
  "join_value pf a v = (case v of PStr s \<Rightarrow> Inr (path_join pf a s) | _ \<Rightarrow> Inl (type_error pf v))"

definition install_dependency :: "platform \<Rightarrow> pydict \<Rightarrow> ievent list stmt" where
  "install_dependency pf dep =
     (let dep_type = dict_get dep ''type'' (PStr ''pip'');
          name = dict_get dep ''name'' (PStr [])
      in if dep_type = PStr ''pip'' \<and> py_truthy name then call pf (PipInstall name) else skip)"

definition copy_file :: "platform \<Rightarrow> string \<Rightarrow> pydict \<Rightarrow> ievent list stmt" where
  "copy_file pf install_path file_info =
     (let source = dict_get file_info ''source'' (PStr []);
          dest = dict_get file_info ''destination'' (PStr [])
      in if \<not> py_truthy source \<or> \<not> py_truthy dest then skip
         else (case join_value pf install_path dest of
                 Inl x \<Rightarrow> raise_exc x
               | Inr dest_path \<Rightarrow>
                   seq_run
                    [call pf (MakeDirs (path_dirname pf dest_path)),
                     if_run (\<lambda>tr. isfile pf tr source)
                       (call pf (Copy2 source dest_path))
                       (if_run (\<lambda>tr. isdir pf tr source)
                          (seq_run
                            [if_run (\<lambda>tr. path_exists pf tr dest_path)
                               (call pf (RmTree dest_path)) skip,
                             call pf (CopyTree source dest_path)])
                          skip)]))"

definition save_link :: "platform \<Rightarrow> string \<Rightarrow> pyval \<Rightarrow> string \<Rightarrow> ievent list stmt" where
  "save_link pf install_path target shortcut_path =
     (case join_value pf install_path target of
        Inl x \<Rightarrow> raise_exc x
      | Inr target_path \<Rightarrow>
          call pf (SaveShortcut shortcut_path target_path (path_dirname pf target_path)))"

definition create_shortcut :: "platform \<Rightarrow> string \<Rightarrow> pydict \<Rightarrow> ievent list stmt" where
  "create_shortcut pf install_path shortcut =
     try_except_ImportError_pass
      (seq_run
        [call pf ImportWin32com,
         call pf DispatchShell,
         (let name = dict_get shortcut ''name'' (PStr []);
              target = dict_get shortcut ''target'' (PStr []);
              location = dict_get shortcut ''location'' (PStr ''desktop'')
          in if location = PStr ''desktop'' then
               save_link pf install_path target
                 (path_join pf (path_join pf (expanduser_home pf) ''Desktop'') (py_str name @ ''.lnk''))
             else if location = PStr ''start_menu'' then
               (case environ_APPDATA pf of
                  None \<Rightarrow> raise_exc (Error ([CHR 0x27] @ ''APPDATA'' @ [CHR 0x27]))
                | Some appdata \<Rightarrow>
                    save_link pf install_path target
                      (path_join pf
                        (path_join pf
                          (path_join pf
                            (path_join pf (path_join pf appdata ''Microsoft'') ''Windows'')
                            ''Start Menu'')
                          ''Programs'')
                        (py_str name @ ''.lnk'')))
             else skip)])"

definition apply_registry :: "platform \<Rightarrow> pydict \<Rightarrow> ievent list stmt" where
  "apply_registry pf reg_entry =
     try_except_pass
      (let root = dict_get reg_entry ''root'' (PStr ''HKEY_CURRENT_USER'');
           key_path = dict_get reg_entry ''key'' (PStr []);
           value_name = dict_get reg_entry ''name'' (PStr []);
           value_data = dict_get reg_entry ''value'' (PStr []);
           value_type = dict_get reg_entry ''type'' (PStr ''REG_SZ'')
       in case root of
            PStr r \<Rightarrow>
              (let root_key = (if winreg_hasattr pf r then r else ''HKEY_CURRENT_USER'')
               in seq_run
                   [call pf (RegCreateKey root_key key_path),
                    (if value_type = PStr ''REG_DWORD'' then
                       (case int_of pf value_data of
                          Inl x \<Rightarrow> raise_exc x
                        | Inr i \<Rightarrow>
                            call pf (RegSetValueEx root_key key_path value_name REG_DWORD (PInt i)))
                     else
                       call pf (RegSetValueEx root_key key_path value_name REG_SZ
                                  (PStr (py_str value_data)))),
                    call pf (RegCloseKey root_key key_path)])
          | _ \<Rightarrow> raise_exc (type_error pf root))"

definition run_script :: "platform \<Rightarrow> string \<Rightarrow> pydict \<Rightarrow> ievent list stmt" where
  "run_script pf install_path script =
     (let script_type = dict_get script ''type'' (PStr ''python'');
          content = dict_get script ''content'' (PStr [])
      in if script_type = PStr ''python'' \<and> py_truthy content then call pf (ExecPython content)
         else if script_type = PStr ''cmd'' \<and> py_truthy content then
           call pf (ShellRun content install_path)
         else skip)"

text \<open>The text written to \<open>uninstall.py\<close>: an f-string over \<open>PROJECT_NAME\<close> and the
  install path.\<close>

definition uninstall_script_head :: string where
  \<open>uninstall_script_head =
     ''\<newline>'' @
     ''import os\<newline>'' @
     ''import sys\<newline>'' @
     ''import shutil\<newline>'' @
     ''from PyQt6.QtWidgets import QApplication, QMessageBox\<newline>'' @
     ''\<newline>'' @
     ''def uninstall():\<newline>'' @
     ''    reply = QMessageBox.question(None, "Uninstall", \<newline>'' @
     ''                                "Are you sure you want to uninstall ''\<close>

definition uninstall_script_mid :: string where
  \<open>uninstall_script_mid =
     ''?",\<newline>'' @
     ''                                QMessageBox.StandardButton.Yes | QMessageBox.StandardButton.No)\<newline>'' @
     ''    \<newline>'' @
     ''    if reply == QMessageBox.StandardButton.Yes:\<newline>'' @
     ''        try:\<newline>'' @
     ''            install_dir = r"''\<close>

definition uninstall_script_tail :: string where
  \<open>uninstall_script_tail =
     ''"\<newline>'' @
     ''            if os.path.exists(install_dir):\<newline>'' @
     ''                shutil.rmtree(install_dir)\<newline>'' @
     ''            QMessageBox.information(None, "Success", "Uninstallation complete!")\<newline>'' @
     ''        except Exception as ex:\<newline>'' @
     ''            QMessageBox.critical(None, "Error", f"Uninstallation failed: {ex}")\<newline>'' @
     ''\<newline>'' @
     ''if __name__ == "__main__":\<newline>'' @
     ''    app = QApplication(sys.argv)\<newline>'' @
     ''    uninstall()\<newline>''\<close>

definition uninstall_script :: "installer_data \<Rightarrow> string \<Rightarrow> string" where
  "uninstall_script d install_path =
     uninstall_script_head @ PROJECT_NAME d @ uninstall_script_mid @ install_path @
     uninstall_script_tail"

definition create_uninstaller_file :: "platform \<Rightarrow> installer_data \<Rightarrow> string \<Rightarrow> ievent list stmt" where
  "create_uninstaller_file pf d install_path =
     call pf (WriteFile (path_join pf install_path ''uninstall.py'') (uninstall_script d install_path))"

text \<open>The loop over \<open>SCRIPT_ELEMENTS\<close> in \<open>run\<close>.\<close>

definition run_post_install_scripts :: "platform \<Rightarrow> installer_data \<Rightarrow> string \<Rightarrow> ievent list stmt" where
  "run_post_install_scripts pf d install_path =
     for_each (SCRIPT_ELEMENTS d)
       (\<lambda>script. if dict_get script ''event'' PNone = PStr ''post_install''
                 then run_script pf install_path script else skip)"

text \<open>The body of the \<open>try\<close> block of \<open>InstallThread.run\<close>, up to the uninstaller step,
  then that step, then the two closing signals.\<close>

definition install_steps :: "platform \<Rightarrow> installer_data \<Rightarrow> string \<Rightarrow> ievent list stmt list" where
  "install_steps pf d install_path =
     [call pf (MakeDirs install_path),
      emit (Progress 10 ''Created installation directory''),
      (if DEPENDENCIES d \<noteq> [] then
         seq_run [emit (Progress 20 ''Installing dependencies...''),
                  for_each (DEPENDENCIES d) (install_dependency pf)]
       else skip),
      emit (Progress 40 ''Copying files...''),
      for_each (FILES_DATA d) (copy_file pf install_path),
      emit (Progress 60 ''Creating shortcuts...''),
      for_each (SHORTCUTS d) (create_shortcut pf install_path),
      emit (Progress 70 ''Applying registry entries...''),
      for_each (REGISTRY_ENTRIES d) (apply_registry pf),
      emit (Progress 80 ''Running post-install scripts...''),
      run_post_install_scripts pf d install_path]"

definition uninstaller_step :: "platform \<Rightarrow> installer_data \<Rightarrow> string \<Rightarrow> ievent list stmt" where
  "uninstaller_step pf d install_path =
     (if CREATE_UNINSTALLER d then
        seq_run [emit (Progress 90 ''Creating uninstaller...''),
                 create_uninstaller_file pf d install_path]
      else skip)"

definition install_body :: "platform \<Rightarrow> installer_data \<Rightarrow> string \<Rightarrow> ievent list stmt" where
  "install_body pf d install_path =
     seq_run
      (install_steps pf d install_path @
       [uninstaller_step pf d install_path,
        emit (Progress 100 ''Installation complete!''),
        emit (FinishedSignal True ''Installation completed successfully!'')])"

text \<open>\<open>InstallThread.run\<close>: the trace of a run that starts with an empty trace.\<close>

definition InstallThread_run :: "platform \<Rightarrow> installer_data \<Rightarrow> string \<Rightarrow> ievent list" where
  "InstallThread_run pf d install_path =
     (case install_body pf d install_path [] of
        (None, tr) \<Rightarrow> tr
      | (Some x, tr) \<Rightarrow> tr @ [FinishedSignal False (''Installation failed: '' @ exc_str x)])"

section \<open>The build orchestrator (\<open>InstallerGeneratorThread\<close>)\<close>

text \<open>
  A generation run is modelled by its trace as well: the three signals (\<open>progress\<close>,
  \<open>log_message\<close>, \<open>finished\<close>) and the calls to the file system and the packaging tool.
  The state of a run is the trace and the attribute \<open>temp_dir\<close>. The build platform says
  what each call returns or raises after a given trace.
\<close>

datatype bcall =
    Mkdtemp string
  | WriteText string string
  | SubprocessRun "string list" string
  | ListDir string
  | MakeDirsExistOk string
  | MoveFile string string
  | RmTreeDir string

datatype gevent =
    GProgress int string
  | GLog string
  | GFinished string bool
  | GCall bcall

record build_platform =
  b_raises :: "gevent list \<Rightarrow> bcall \<Rightarrow> exc option"
  mkdtemp :: "gevent list \<Rightarrow> string \<Rightarrow> exc + string"
  subprocess_run :: "gevent list \<Rightarrow> string list \<Rightarrow> string \<Rightarrow> exc + (int \<times> string)"
  listdir :: "gevent list \<Rightarrow> string \<Rightarrow> exc + string list"
  b_exists :: "gevent list \<Rightarrow> string \<Rightarrow> bool"
  b_join :: "string \<Rightarrow> string \<Rightarrow> string"
  b_dirname :: "string \<Rightarrow> string"
  sys_executable :: string

record gstate =
  g_trace :: "gevent list"
  g_temp_dir :: "string option"

definition g_emit :: "gevent \<Rightarrow> gstate stmt" where
  "g_emit e s = (None, s\<lparr>g_trace := g_trace s @ [e]\<rparr>)"

definition g_call :: "build_platform \<Rightarrow> bcall \<Rightarrow> gstate stmt" where
  "g_call bp a s = (b_raises bp (g_trace s) a, s\<lparr>g_trace := g_trace s @ [GCall a]\<rparr>)"

definition g_call_result ::
    "(gevent list \<Rightarrow> exc + 'a) \<Rightarrow> bcall \<Rightarrow> ('a \<Rightarrow> gstate stmt) \<Rightarrow> gstate stmt" where
  "g_call_result query a k s =
     (case query (g_trace s) of
        Inl x \<Rightarrow> (Some x, s\<lparr>g_trace := g_trace s @ [GCall a]\<rparr>)
      | Inr v \<Rightarrow> k v (s\<lparr>g_trace := g_trace s @ [GCall a]\<rparr>))"

definition set_temp_dir :: "string \<Rightarrow> gstate stmt" where
  "set_temp_dir d s = (None, s\<lparr>g_temp_dir := Some d\<rparr>)"

text \<open>The log line of the move holds the arrow U+2192, which is not below 256: it stands
  here as the three bytes of its UTF-8 form.\<close>

definition arrow_utf8 :: string where
  "arrow_utf8 = [CHR 0xE2, CHR 0x86, CHR 0x92]"

definition repr_names :: "string list \<Rightarrow> string" where
  "repr_names fs = py_repr (PList (map PStr fs))"

definition relocate :: "build_platform \<Rightarrow> string \<Rightarrow> string \<Rightarrow> string list \<Rightarrow> gstate stmt" where
  "relocate bp output_path dist_dir dist_files =
     seq_run
      [g_emit (GLog (''Files in dist: '' @ repr_names dist_files)),
       (case filter (\<lambda>f. py_endswith f ''.exe'') dist_files of
          [] \<Rightarrow>
            raise_exc (Error (''No .exe file found in '' @ dist_dir @ ''. Files present: '' @
                              repr_names dist_files))
        | exe # others \<Rightarrow>
            (let generated_exe = b_join bp dist_dir exe;
                 output_dir = b_dirname bp output_path
             in seq_run
                 [g_emit (GLog (''Found generated installer: '' @ generated_exe)),
                  if_run (\<lambda>s. output_dir \<noteq> [] \<and> \<not> b_exists bp (g_trace s) output_dir)
                    (g_call bp (MakeDirsExistOk output_dir)) skip,
                  g_call bp (MoveFile generated_exe output_path),
                  g_emit (GLog (''Installer created '' @ arrow_utf8 @ '' '' @ output_path)),
                  g_emit (GProgress 95 ''Installer file moved to output location'')]))]"

definition check_output :: "build_platform \<Rightarrow> string \<Rightarrow> string \<Rightarrow> int \<times> string \<Rightarrow> gstate stmt" where
  "check_output bp output_path temp_dir result =
     (let returncode = fst result; stderr = snd result; dist_dir = b_join bp temp_dir ''dist''
      in seq_run
          [g_emit (GProgress 80 ''PyInstaller finished, checking output...''),
           (if returncode \<noteq> 0 then
              seq_run [g_emit (GLog (''PyInstaller stderr: '' @ stderr)),
                       raise_exc (Error (''PyInstaller failed: '' @ stderr))]
            else skip),
           if_run (\<lambda>s. \<not> b_exists bp (g_trace s) dist_dir)
             (raise_exc (Error (''Dist directory not found: '' @ dist_dir)))
             (g_call_result (\<lambda>tr. listdir bp tr dist_dir) (ListDir dist_dir)
                (relocate bp output_path dist_dir))])"

definition pyinstaller_cmd :: "build_platform \<Rightarrow> string list" where
  "pyinstaller_cmd bp =
     [sys_executable bp, ''-m'', ''PyInstaller'', ''--noconfirm'', ''--clean'', ''installer.spec'']"

definition run_pyinstaller :: "build_platform \<Rightarrow> string \<Rightarrow> string \<Rightarrow> gstate stmt" where
  "run_pyinstaller bp output_path temp_dir =
     seq_run
      [g_emit (GLog ''Running PyInstaller...''),
       g_emit (GProgress 40 ''Running PyInstaller...''),
       g_call_result (\<lambda>tr. subprocess_run bp tr (pyinstaller_cmd bp) temp_dir)
         (SubprocessRun (pyinstaller_cmd bp) temp_dir)
         (check_output bp output_path temp_dir)]"

definition build_steps :: "build_platform \<Rightarrow> ProjectConfig \<Rightarrow> string \<Rightarrow> string \<Rightarrow> gstate stmt list" where
  "build_steps bp p output_path d =
     [set_temp_dir d,
      g_emit (GProgress 5 (''Created temp directory: '' @ d)),
      g_call bp (WriteText (b_join bp d ''installer.py'') (generate_installer_script p)),
      g_emit (GProgress 20 ''Generated installer script''),
      g_call bp (WriteText (b_join bp d ''installer.spec'') (generate_spec_file p)),
      g_emit (GProgress 35 ''Generated PyInstaller spec''),
      run_pyinstaller bp output_path d,
      g_emit (GProgress 100 ''Installer build completed''),
      g_emit (GLog ''Installer generation successful'')]"

definition generator_try :: "build_platform \<Rightarrow> ProjectConfig \<Rightarrow> string \<Rightarrow> gstate stmt" where
  "generator_try bp p output_path =
     seq_run
      [g_emit (GProgress 0 ''Starting installer generation...''),
       g_emit (GLog ''=== Installer Generation Started ===''),
       g_call_result (\<lambda>tr. mkdtemp bp tr ''instgen_'') (Mkdtemp ''instgen_'')
         (\<lambda>d. seq_run (build_steps bp p output_path d @ [g_emit (GFinished output_path True)]))]"

text \<open>The \<open>except Exception\<close> handler, the \<open>finally\<close> block, and the whole of \<open>run\<close>.\<close>

definition generator_except :: "exc option \<times> gstate \<Rightarrow> gstate" where
  "generator_except rs =
     (case rs of
        (None, s) \<Rightarrow> s
      | (Some e, s) \<Rightarrow>
          (let msg = ''Installer generation failed: '' @ exc_str e
           in s\<lparr>g_trace := g_trace s @ [GLog (''ERROR: '' @ msg), GFinished msg False]\<rparr>))"

definition generator_finally :: "build_platform \<Rightarrow> gstate \<Rightarrow> gstate" where
  "generator_finally bp s =
     (case g_temp_dir s of
        None \<Rightarrow> s
      | Some d \<Rightarrow>
          if d \<noteq> [] \<and> b_exists bp (g_trace s) d then
            (case b_raises bp (g_trace s) (RmTreeDir d) of
               None \<Rightarrow>
                 s\<lparr>g_trace := g_trace s @
                     [GCall (RmTreeDir d), GLog (''Cleaned up temp directory: '' @ d)]\<rparr>
             | Some e \<Rightarrow>
                 s\<lparr>g_trace := g_trace s @
                     [GCall (RmTreeDir d),
                      GLog (''Warning: Could not clean temp directory: '' @ exc_str e)]\<rparr>)
          else s)"

definition generator_run :: "build_platform \<Rightarrow> ProjectConfig \<Rightarrow> string \<Rightarrow> gevent list" where
  "generator_run bp p output_path =
     g_trace (generator_finally bp
       (generator_except (generator_try bp p output_path \<lparr>g_trace = [], g_temp_dir = None\<rparr>)))"

section \<open>The host: files, clock and random identifiers\<close>

text \<open>
  What \<open>models.py\<close> and \<open>helpers.py\<close> read from outside the program: whether a path
  exists, whether the write probe of the validator fails in a directory, the SHA-256 of a
  file (\<open>None\<close> when reading it raises), the random identifiers drawn for the \<open>i\<close>-th
  script element of a document, the clock and the interpreter version.
\<close>

record host =
  file_exists :: "string \<Rightarrow> bool"
  write_probe_fails :: "string \<Rightarrow> bool"
  sha256_hex :: "string \<Rightarrow> string option"
  uuid4_str8 :: "nat \<Rightarrow> string"
  uuid4_hex8 :: "nat \<Rightarrow> string"
  now_year :: int
  now_isoformat :: string
  python_major_minor :: string

section \<open>\<open>validate_project\<close> (utils/helpers.py)\<close>

definition is_digit :: "char \<Rightarrow> bool" where
  "is_digit c = (c \<in> set ''0123456789'')"

text \<open>\<open>\<^verbatim>\<open>\d+(\.\d+)*\<close>\<close> against the whole string; \<open>seen\<close> says that the current group has a digit.\<close>

fun match_groups :: "bool \<Rightarrow> string \<Rightarrow> bool" where
  "match_groups seen [] = seen"
| "match_groups seen (c # cs) =
     (if is_digit c then match_groups True cs
      else if c = CHR ''.'' \<and> seen then match_groups False cs
      else False)"

text \<open>\<open>re.match(r'^\d+(\.\d+)*$', s)\<close>: \<open>$\<close> also matches before one final newline.\<close>

definition version_pattern_match :: "string \<Rightarrow> bool" where
  "version_pattern_match s =
     (match_groups False s \<or> (s \<noteq> [] \<and> last s = CHR 0x0A \<and> match_groups False (butlast s)))"

definition validate_project :: "host \<Rightarrow> ProjectConfig \<Rightarrow> bool \<times> string list \<times> string list" where
  "validate_project h project =
     (let errors =
            (if name project = [] \<or> py_strip (name project) = []
             then [''Project name is required''] else []) @
            (if version project = [] \<or> py_strip (version project) = []
             then [''Version is required''] else []) @
            (if output_dir project = [] then [''Output directory is required'']
             else if file_exists h (output_dir project) \<and> write_probe_fails h (output_dir project)
             then [''Output directory is not writable''] else []);
          warnings =
            (if icon_path project \<noteq> [] \<and> \<not> file_exists h (icon_path project)
             then [''Icon file not found: '' @ icon_path project] else []) @
            (if license_enabled project \<and> license_file project \<noteq> [] \<and>
                \<not> file_exists h (license_file project)
             then [''License file not found: '' @ license_file project] else []) @
            (if sign_installer project \<and> certificate_path project \<noteq> [] \<and>
                \<not> file_exists h (certificate_path project)
             then [''Certificate file not found: '' @ certificate_path project] else []) @
            concat (map (\<lambda>file_entry.
                      if \<not> fe_is_directory file_entry \<and> \<not> file_exists h (fe_source_path file_entry)
                      then [''File not found: '' @ fe_source_path file_entry] else [])
                    (files project)) @
            (if version project \<noteq> [] \<and> \<not> version_pattern_match (version project)
             then [''Version format should be like '' @ [CHR 0x27] @ ''1.0.0'' @ [CHR 0x27] @ '': '' @
                   version project] else []) @
            (if default_install_dir project \<noteq> [] \<and>
                \<not> py_contains ''{name}'' (default_install_dir project)
             then [''Default install directory should contain {name} placeholder''] else [])
      in (errors = [], errors, warnings))"

section \<open>Reading and writing the project document (core/models.py, core/project_manager.py)\<close>

text \<open>
  The persisted document is the JSON object that \<open>json.dump\<close> writes from \<open>to_dict()\<close> and
  \<open>json.load\<close> reads back: a dictionary of \<open>pyval\<close> with distinct keys. The record types
  follow the annotations of the dataclasses. Python itself checks no type when it builds
  an object, so a document that holds a value of another type at a field is outside the
  model: reading it gives \<open>NotOfDeclaredType\<close>.
\<close>

datatype load_error =
    MissingKey string
  | InvalidEnumValue pyval
  | UnexpectedKeyword string
  | MissingArgument string
  | NotOfDeclaredType string

datatype ftype = TStr | TBool | TStrList | TDict | TAny

fun is_str :: "pyval \<Rightarrow> bool" where
  "is_str (PStr s) = True"
| "is_str _ = False"

fun un_str :: "pyval \<Rightarrow> string" where
  "un_str (PStr s) = s"
| "un_str _ = []"

fun has_type :: "ftype \<Rightarrow> pyval \<Rightarrow> bool" where
  "has_type TStr v = is_str v"
| "has_type TBool v = (case v of PBool b \<Rightarrow> True | _ \<Rightarrow> False)"
| "has_type TStrList v = (case v of PList xs \<Rightarrow> list_all is_str xs | _ \<Rightarrow> False)"
| "has_type TDict v = (case v of PDict kvs \<Rightarrow> True | _ \<Rightarrow> False)"
| "has_type TAny v = True"

text \<open>The first field of \<open>spec\<close> at which the document holds a value of another type.\<close>

definition ill_typed :: "(string \<times> ftype) list \<Rightarrow> pydict \<Rightarrow> load_error option" where
  "ill_typed spec data =
     (case filter (\<lambda>kt. case map_of data (fst kt) of
                           Some v \<Rightarrow> \<not> has_type (snd kt) v | None \<Rightarrow> False) spec of
        kt # kts \<Rightarrow> Some (NotOfDeclaredType (fst kt))
      | [] \<Rightarrow> None)"

text \<open>\<open>cls(**data)\<close>: every key is a field, every field without a default is given.\<close>

definition check_kwargs :: "(string \<times> ftype) list \<Rightarrow> string list \<Rightarrow> pydict \<Rightarrow> load_error option" where
  "check_kwargs spec required data =
     (case filter (\<lambda>k. map_of spec k = None) (map fst data) of
        k # ks \<Rightarrow> Some (UnexpectedKeyword k)
      | [] \<Rightarrow>
         (case filter (\<lambda>k. map_of data k = None) required of
            k # ks \<Rightarrow> Some (MissingArgument k)
          | [] \<Rightarrow> ill_typed spec data))"

definition get_str :: "pydict \<Rightarrow> string \<Rightarrow> string \<Rightarrow> string" where
  "get_str d k dflt = (case map_of d k of Some (PStr s) \<Rightarrow> s | _ \<Rightarrow> dflt)"

definition get_bool :: "pydict \<Rightarrow> string \<Rightarrow> bool \<Rightarrow> bool" where
  "get_bool d k dflt = (case map_of d k of Some (PBool b) \<Rightarrow> b | _ \<Rightarrow> dflt)"

definition get_str_list :: "pydict \<Rightarrow> string \<Rightarrow> string list \<Rightarrow> string list" where
  "get_str_list d k dflt = (case map_of d k of Some (PList xs) \<Rightarrow> map un_str xs | _ \<Rightarrow> dflt)"

fun map_result :: "('a \<Rightarrow> 'e + 'b) \<Rightarrow> 'a list \<Rightarrow> 'e + 'b list" where
  "map_result f [] = Inr []"
| "map_result f (x # xs) =
     (case f x of
        Inl e \<Rightarrow> Inl e
      | Inr y \<Rightarrow> (case map_result f xs of Inl e \<Rightarrow> Inl e | Inr ys \<Rightarrow> Inr (y # ys)))"

subsection \<open>The entry classes\<close>

definition all_types :: "ScriptElementType list" where
  "all_types =
     [INSTALL_FILE, CREATE_DIR, CREATE_SHORTCUT, EXECUTE_COMMAND, SET_REGISTRY,
      CREATE_UNINSTALLER_T, SHOW_LICENSE, REQUIRE_ADMIN, CHECK_DISK_SPACE, DOWNLOAD_FILE,
      CREATE_SERVICE, SET_ENVIRONMENT, RUN_SCRIPT]"

text \<open>\<open>ScriptElementType(value)\<close>.\<close>

definition type_of_value :: "pyval \<Rightarrow> load_error + ScriptElementType" where
  "type_of_value v =
     (case filter (\<lambda>t. PStr (type_value t) = v) all_types of
        t # ts \<Rightarrow> Inr t
      | [] \<Rightarrow> Inl (InvalidEnumValue v))"

definition ScriptElement_post_init :: "host \<Rightarrow> nat \<Rightarrow> ScriptElement \<Rightarrow> ScriptElement" where
  "ScriptElement_post_init h i e =
     (if se_id e = [] then e\<lparr>se_id := type_value (se_type e) @ ''_'' @ uuid4_hex8 h i\<rparr> else e)"

definition ScriptElement_from_dict :: "host \<Rightarrow> nat \<Rightarrow> pydict \<Rightarrow> load_error + ScriptElement" where
  "ScriptElement_from_dict h i data =
     (case map_of data ''type'' of
        None \<Rightarrow> Inl (MissingKey ''type'')
      | Some tv \<Rightarrow>
         (case type_of_value tv of
            Inl err \<Rightarrow> Inl err
          | Inr ty \<Rightarrow>
             (case map_of data ''name'' of
                None \<Rightarrow> Inl (MissingKey ''name'')
              | Some nv \<Rightarrow>
                 (case ill_typed [(''name'', TStr), (''parameters'', TDict), (''id'', TStr),
                                  (''enabled'', TBool), (''critical'', TBool)] data of
                    Some err \<Rightarrow> Inl err
                  | None \<Rightarrow>
                     Inr (ScriptElement_post_init h i
                       \<lparr> se_type = ty,
                         se_name = un_str nv,
                         se_parameters = (case map_of data ''parameters'' of
                                            Some (PDict kvs) \<Rightarrow> kvs | _ \<Rightarrow> []),
                         se_id = get_str data ''id'' (uuid4_str8 h i),
                         se_enabled = get_bool data ''enabled'' True,
                         se_critical = get_bool data ''critical'' False \<rparr>)))))"

definition ShortcutConfig_from_dict :: "pydict \<Rightarrow> load_error + ShortcutConfig" where
  "ShortcutConfig_from_dict data =
     (case check_kwargs [(''name'', TStr), (''target'', TStr), (''icon'', TStr),
                         (''working_dir'', TStr), (''arguments'', TStr), (''location'', TStr),
                         (''description'', TStr)] [''name'', ''target''] data of
        Some err \<Rightarrow> Inl err
      | None \<Rightarrow>
         Inr \<lparr> sc_name = get_str data ''name'' [],
               sc_target = get_str data ''target'' [],
               sc_icon = get_str data ''icon'' [],
               sc_working_dir = get_str data ''working_dir'' [],
               sc_arguments = get_str data ''arguments'' [],
               sc_location = get_str data ''location'' ''desktop'',
               sc_description = get_str data ''description'' [] \<rparr>)"

definition RegistryEntry_from_dict :: "pydict \<Rightarrow> load_error + RegistryEntry" where
  "RegistryEntry_from_dict data =
     (case check_kwargs [(''hive'', TStr), (''key'', TStr), (''value_name'', TStr),
                         (''value_type'', TStr), (''value_data'', TAny), (''action'', TStr)]
             [] data of
        Some err \<Rightarrow> Inl err
      | None \<Rightarrow>
         Inr \<lparr> re_hive = get_str data ''hive'' ''HKEY_CURRENT_USER'',
               re_key = get_str data ''key'' [],
               re_value_name = get_str data ''value_name'' [],
               re_value_type = get_str data ''value_type'' ''REG_SZ'',
               re_value_data = dict_get data ''value_data'' (PStr []),
               re_action = get_str data ''action'' ''create'' \<rparr>)"

definition calculate_hash :: "host \<Rightarrow> FileEntry \<Rightarrow> string" where
  "calculate_hash h f =
     (if fe_is_directory f \<or> \<not> file_exists h (fe_source_path f) then []
      else (case sha256_hex h (fe_source_path f) of Some digest \<Rightarrow> digest | None \<Rightarrow> []))"

definition FileEntry_post_init :: "host \<Rightarrow> FileEntry \<Rightarrow> FileEntry" where
  "FileEntry_post_init h f =
     (if fe_hash f = [] \<and> file_exists h (fe_source_path f) \<and> \<not> fe_is_directory f
      then f\<lparr>fe_hash := calculate_hash h f\<rparr> else f)"

definition FileEntry_from_dict :: "host \<Rightarrow> pydict \<Rightarrow> load_error + FileEntry" where
  "FileEntry_from_dict h data =
     (case check_kwargs [(''source_path'', TStr), (''install_path'', TStr), (''is_binary'', TBool),
                         (''is_directory'', TBool), (''compress'', TBool), (''hash'', TStr),
                         (''version'', TStr), (''description'', TStr)]
             [''source_path'', ''install_path''] data of
        Some err \<Rightarrow> Inl err
      | None \<Rightarrow>
         Inr (FileEntry_post_init h
           \<lparr> fe_source_path = get_str data ''source_path'' [],
             fe_install_path = get_str data ''install_path'' [],
             fe_is_binary = get_bool data ''is_binary'' False,
             fe_is_directory = get_bool data ''is_directory'' False,
             fe_compress = get_bool data ''compress'' True,
             fe_hash = get_str data ''hash'' [],
             fe_version = get_str data ''version'' [],
             fe_description = get_str data ''description'' [] \<rparr>))"

definition Dependency_from_dict :: "pydict \<Rightarrow> load_error + Dependency" where
  "Dependency_from_dict data =
     (case check_kwargs [(''name'', TStr), (''version'', TStr), (''installer_path'', TStr),
                         (''check_command'', TStr), (''required'', TBool)] [''name''] data of
        Some err \<Rightarrow> Inl err
      | None \<Rightarrow>
         Inr \<lparr> dep_name = get_str data ''name'' [],
               dep_version = get_str data ''version'' [],
               dep_installer_path = get_str data ''installer_path'' [],
               dep_check_command = get_str data ''check_command'' [],
               dep_required = get_bool data ''required'' True \<rparr>)"

subsection \<open>\<open>ProjectConfig\<close>\<close>

definition str_list :: "string list \<Rightarrow> pyval" where
  "str_list xs = PList (map PStr xs)"

definition dicts :: "pydict list \<Rightarrow> pyval" where
  "dicts ds = PList (map PDict ds)"

definition ProjectConfig_to_dict :: "ProjectConfig \<Rightarrow> pydict" where
  "ProjectConfig_to_dict p =
     [(''name'', PStr (name p)),
      (''version'', PStr (version p)),
      (''author'', PStr (author p)),
      (''company'', PStr (company p)),
      (''description'', PStr (description p)),
      (''copyright'', PStr (copyright p)),
      (''icon_path'', PStr (icon_path p)),
      (''output_dir'', PStr (output_dir p)),
      (''default_install_dir'', PStr (default_install_dir p)),
      (''python_version'', PStr (python_version p)),
      (''require_admin'', PBool (require_admin p)),
      (''compression'', PStr (compression p)),
      (''license_enabled'', PBool (license_enabled p)),
      (''license_text'', PStr (license_text p)),
      (''license_file'', PStr (license_file p)),
      (''create_uninstaller'', PBool (create_uninstaller p)),
      (''silent_mode'', PBool (silent_mode p)),
      (''overwrite_existing'', PBool (overwrite_existing p)),
      (''installer_title'', PStr (installer_title p)),
      (''installer_style'', PStr (installer_style p)),
      (''background_color'', PStr (background_color p)),
      (''text_color'', PStr (text_color p)),
      (''button_color'', PStr (button_color p)),
      (''custom_css'', PStr (custom_css p)),
      (''onefile'', PBool (onefile p)),
      (''console'', PBool (console p)),
      (''hidden_imports'', str_list (hidden_imports p)),
      (''additional_hooks'', str_list (additional_hooks p)),
      (''exclude_modules'', str_list (exclude_modules p)),
      (''script_elements'', dicts (map ScriptElement_to_dict (script_elements p))),
      (''shortcuts'', dicts (map ShortcutConfig_to_dict (shortcuts p))),
      (''registry_entries'', dicts (map RegistryEntry_to_dict (registry_entries p))),
      (''dependencies'', dicts (map Dependency_to_dict (dependencies p))),
      (''search_paths'', str_list (search_paths p)),
      (''files'', dicts (map FileEntry_to_dict (files p))),
      (''sign_installer'', PBool (sign_installer p)),
      (''certificate_path'', PStr (certificate_path p)),
      (''certificate_password'', PStr (certificate_password p)),
      (''timestamp_server'', PStr (timestamp_server p)),
      (''created'', PStr (created p)),
      (''modified'', PStr (modified p))]"

text \<open>\<open>data.get(k, [])\<close> as the list of dictionaries that the comprehension walks.\<close>

definition entry_dicts :: "pydict \<Rightarrow> string \<Rightarrow> load_error + pydict list" where
  "entry_dicts data k =
     (case map_of data k of
        None \<Rightarrow> Inr []
      | Some (PList xs) \<Rightarrow>
          map_result (\<lambda>x. case x of PDict kvs \<Rightarrow> Inr kvs | _ \<Rightarrow> Inl (NotOfDeclaredType k)) xs
      | Some _ \<Rightarrow> Inl (NotOfDeclaredType k))"

definition from_entries :: "pydict \<Rightarrow> string \<Rightarrow> (pydict \<Rightarrow> load_error + 'a) \<Rightarrow> load_error + 'a list" where
  "from_entries data k conv =
     (case entry_dicts data k of Inl err \<Rightarrow> Inl err | Inr ds \<Rightarrow> map_result conv ds)"

text \<open>The script elements are numbered, for the random identifiers the host hands out.\<close>

definition script_elements_from :: "host \<Rightarrow> pydict \<Rightarrow> load_error + ScriptElement list" where
  "script_elements_from h data =
     (case entry_dicts data ''script_elements'' of
        Inl err \<Rightarrow> Inl err
      | Inr ds \<Rightarrow> map_result (\<lambda>id. ScriptElement_from_dict h (fst id) (snd id)) (enumerate 0 ds))"

definition ProjectConfig_fields :: "(string \<times> ftype) list" where
  "ProjectConfig_fields =
     [(''name'', TStr), (''version'', TStr), (''author'', TStr), (''company'', TStr),
      (''description'', TStr), (''copyright'', TStr), (''icon_path'', TStr),
      (''output_dir'', TStr), (''default_install_dir'', TStr), (''python_version'', TStr),
      (''require_admin'', TBool), (''compression'', TStr), (''license_enabled'', TBool),
      (''license_text'', TStr), (''license_file'', TStr), (''create_uninstaller'', TBool),
      (''silent_mode'', TBool), (''overwrite_existing'', TBool), (''installer_title'', TStr),
      (''installer_style'', TStr), (''background_color'', TStr), (''text_color'', TStr),
      (''button_color'', TStr), (''custom_css'', TStr), (''onefile'', TBool),
      (''console'', TBool), (''hidden_imports'', TStrList), (''additional_hooks'', TStrList),
      (''exclude_modules'', TStrList), (''script_elements'', TAny), (''shortcuts'', TAny),
      (''registry_entries'', TAny), (''dependencies'', TAny), (''search_paths'', TStrList),
      (''files'', TAny), (''sign_installer'', TBool), (''certificate_path'', TStr),
      (''certificate_password'', TStr), (''timestamp_server'', TStr), (''created'', TStr),
      (''modified'', TStr)]"

text \<open>The default that \<open>from_dict\<close> computes for a missing \<open>copyright\<close>; \<open>0xA9\<close> is the
  copyright sign.\<close>

definition default_copyright :: "host \<Rightarrow> string" where
  "default_copyright h = ''Copyright '' @ [CHR 0xA9] @ '' '' @ show_int (now_year h)"

text \<open>\<open>cls(**updated_data)\<close>: a key that is absent takes the value \<open>from_dict\<close> backfills, or
  else the default of the dataclass.\<close>

definition build_project ::
    "host \<Rightarrow> pydict \<Rightarrow> FileEntry list \<Rightarrow> ScriptElement list \<Rightarrow> ShortcutConfig list \<Rightarrow>
     RegistryEntry list \<Rightarrow> Dependency list \<Rightarrow> ProjectConfig" where
  "build_project h data fs es ss rs ds =
     \<lparr> name = get_str data ''name'' ''New Project'',
       version = get_str data ''version'' ''1.0.0'',
       author = get_str data ''author'' [],
       company = get_str data ''company'' [],
       description = get_str data ''description'' [],
       copyright = get_str data ''copyright'' (default_copyright h),
       icon_path = get_str data ''icon_path'' [],
       output_dir = get_str data ''output_dir'' [],
       default_install_dir =
         get_str data ''default_install_dir'' (''%PROGRAMFILES%'' @ [CHR 0x5C] @ ''{name}''),
       python_version = get_str data ''python_version'' (python_major_minor h),
       require_admin = get_bool data ''require_admin'' True,
       compression = get_str data ''compression'' ''upx'',
       license_enabled = get_bool data ''license_enabled'' False,
       license_text = get_str data ''license_text'' [],
       license_file = get_str data ''license_file'' [],
       create_uninstaller = get_bool data ''create_uninstaller'' True,
       silent_mode = get_bool data ''silent_mode'' False,
       overwrite_existing = get_bool data ''overwrite_existing'' True,
       installer_title = get_str data ''installer_title'' ''{name} Setup'',
       installer_style = get_str data ''installer_style'' ''default'',
       background_color = get_str data ''background_color'' [],
       text_color = get_str data ''text_color'' [],
       button_color = get_str data ''button_color'' [],
       custom_css = get_str data ''custom_css'' [],
       onefile = get_bool data ''onefile'' True,
       console = get_bool data ''console'' False,
       hidden_imports = get_str_list data ''hidden_imports'' [],
       additional_hooks = get_str_list data ''additional_hooks'' [],
       exclude_modules = get_str_list data ''exclude_modules'' [],
       script_elements = es,
       shortcuts = ss,
       registry_entries = rs,
       dependencies = ds,
       search_paths = get_str_list data ''search_paths'' [],
       files = fs,
       sign_installer = get_bool data ''sign_installer'' False,
       certificate_path = get_str data ''certificate_path'' [],
       certificate_password = get_str data ''certificate_password'' [],
       timestamp_server = get_str data ''timestamp_server'' ''http://timestamp.digicert.com'',
       created = get_str data ''created'' (now_isoformat h),
       modified = get_str data ''modified'' (now_isoformat h) \<rparr>"

definition ProjectConfig_from_dict :: "host \<Rightarrow> pydict \<Rightarrow> load_error + ProjectConfig" where
  "ProjectConfig_from_dict h data =
     (case from_entries data ''files'' (FileEntry_from_dict h) of
        Inl err \<Rightarrow> Inl err
      | Inr fs \<Rightarrow>
     (case script_elements_from h data of
        Inl err \<Rightarrow> Inl err
      | Inr es \<Rightarrow>
     (case from_entries data ''shortcuts'' ShortcutConfig_from_dict of
        Inl err \<Rightarrow> Inl err
      | Inr ss \<Rightarrow>
     (case from_entries data ''registry_entries'' RegistryEntry_from_dict of
        Inl err \<Rightarrow> Inl err
      | Inr rs \<Rightarrow>
     (case from_entries data ''dependencies'' Dependency_from_dict of
        Inl err \<Rightarrow> Inl err
      | Inr ds \<Rightarrow>
     (case check_kwargs ProjectConfig_fields [] data of
        Some err \<Rightarrow> Inl err
      | None \<Rightarrow> Inr (build_project h data fs es ss rs ds)))))))"

text \<open>\<open>ProjectManager.save_project\<close> stamps \<open>modified\<close> on the project and writes the
  document; it returns here the project as it is after the call and the document.
  \<open>load_project\<close> reads a document.\<close>

definition save_project :: "host \<Rightarrow> ProjectConfig \<Rightarrow> ProjectConfig \<times> pydict" where
  "save_project h project =
     (let project' = project\<lparr>modified := now_isoformat h\<rparr>
      in (project', ProjectConfig_to_dict project'))"

definition load_project :: "host \<Rightarrow> pydict \<Rightarrow> load_error + ProjectConfig" where
  "load_project h document = ProjectConfig_from_dict h document"

section \<open>Trace predicates\<close>

fun is_finished :: "ievent \<Rightarrow> bool" where
  "is_finished (FinishedSignal b m) = True"
| "is_finished _ = False"

text \<open>A statement is quiet when it only extends the trace, and never by a finished signal.\<close>

definition quiet :: "ievent list stmt \<Rightarrow> bool" where
  "quiet m = (\<forall>tr. \<exists>ext. snd (m tr) = tr @ ext \<and> \<not> list_ex is_finished ext)"

fun g_is_finished :: "gevent \<Rightarrow> bool" where
  "g_is_finished (GFinished m ok) = True"
| "g_is_finished _ = False"

fun is_signal :: "gevent \<Rightarrow> bool" where
  "is_signal (GCall a) = False"
| "is_signal _ = True"

text \<open>A statement of the orchestrator is steady when it only extends the trace, never by a
  finished signal, and leaves the recorded scratch directory as it is.\<close>

definition steady :: "gstate stmt \<Rightarrow> bool" where
  "steady m =
     (\<forall>s. \<exists>ext. snd (m s) = s\<lparr>g_trace := g_trace s @ ext\<rparr> \<and> \<not> list_ex g_is_finished ext)"

text \<open>The try block: on normal completion its last event is the success signal, the first
  finished signal of the trace; when it raises, it has emitted no finished signal. Either
  way the recorded scratch directory is \<open>td\<close>.\<close>

definition try_outcome :: "exc option \<times> gstate \<Rightarrow> string \<Rightarrow> string option \<Rightarrow> bool" where
  "try_outcome rs output_path td =
     (case rs of
        (None, s) \<Rightarrow>
          (\<exists>pre. g_trace s = pre @ [GFinished output_path True] \<and> \<not> list_ex g_is_finished pre)
          \<and> g_temp_dir s = td
      | (Some e, s) \<Rightarrow> \<not> list_ex g_is_finished (g_trace s) \<and> g_temp_dir s = td)"

section \<open>Reading a printed value back\<close>

text \<open>A printed number ends where the text ends or a character that is no digit follows.\<close>

definition number_ends :: "string \<Rightarrow> bool" where
  "number_ends r = (r = [] \<or> \<not> is_digit (hd r))"

text \<open>The first character of \<open>repr\<close> tells the kind of value.\<close>

fun kind :: "pyval \<Rightarrow> nat" where
  "kind PNone = 0"
| "kind (PBool b) = 1"
| "kind (PInt i) = 2"
| "kind (PStr s) = 3"
| "kind (PList xs) = 4"
| "kind (PDict kvs) = 5"

definition char_kind :: "char \<Rightarrow> nat" where
  "char_kind c =
     (if c = CHR ''N'' then 0
      else if c = CHR ''T'' \<or> c = CHR ''F'' then 1
      else if c = CHR ''-'' \<or> is_digit c then 2
      else if c = CHR 0x27 \<or> c = CHR 0x22 then 3
      else if c = CHR ''['' then 4
      else if c = CHR ''{'' then 5
      else 6)"

section \<open>Concrete inputs\<close>

text \<open>A platform on which every call succeeds, and a small project, for evaluation.\<close>

definition demo_platform :: platform where
  "demo_platform =
     \<lparr> raises = (\<lambda>tr a. None),
       path_join = (\<lambda>a b. a @ [CHR 0x5C] @ b),
       path_dirname = (\<lambda>p. rev (drop 1 (dropWhile (\<lambda>c. c \<noteq> CHR 0x5C) (rev p)))),
       isfile = (\<lambda>tr v. True),
       isdir = (\<lambda>tr v. False),
       path_exists = (\<lambda>tr p. False),
       expanduser_home = ''C:'' @ [CHR 0x5C] @ ''Users'' @ [CHR 0x5C] @ ''me'',
       environ_APPDATA = Some ''C:/AppData'',
       winreg_hasattr = (\<lambda>n. n \<in> set [''HKEY_CLASSES_ROOT'', ''HKEY_CURRENT_USER'',
          ''HKEY_LOCAL_MACHINE'', ''HKEY_USERS'', ''HKEY_CURRENT_CONFIG'']),
       int_of = (\<lambda>v. case v of PInt i \<Rightarrow> Inr i | _ \<Rightarrow> Inl (Error ''invalid literal for int()'')),
       type_error = (\<lambda>v. Error ''expected str'') \<rparr>"

text \<open>\<open>ProjectConfig()\<close> with the defaults of the dataclass, for fixed values of the
  interpreter version and the clock.\<close>

definition default_project :: ProjectConfig where
  "default_project =
     \<lparr> name = ''New Project'', version = ''1.0.0'', author = [], company = [],
       description = [], copyright = [], icon_path = [], output_dir = [],
       default_install_dir = ''%PROGRAMFILES%'' @ [CHR 0x5C] @ ''{name}'',
       python_version = ''3.11'',
       require_admin = True, compression = ''upx'', license_enabled = False,
       license_text = [], license_file = [], create_uninstaller = True,
       silent_mode = False, overwrite_existing = True,
       installer_title = ''{name} Setup'', installer_style = ''default'',
       background_color = [], text_color = [], button_color = [], custom_css = [],
       onefile = True, console = False, hidden_imports = [], additional_hooks = [],
       exclude_modules = [], script_elements = [], shortcuts = [], registry_entries = [],
       dependencies = [], search_paths = [], files = [],
       sign_installer = False, certificate_path = [], certificate_password = [],
       timestamp_server = ''http://timestamp.digicert.com'',
       created = ''2024-01-01T00:00:00'', modified = ''2024-01-01T00:00:00'' \<rparr>"

definition demo_script :: ScriptElement where
  "demo_script =
     \<lparr> se_type = RUN_SCRIPT, se_name = ''greet'',
       se_parameters = [(''event'', PStr ''post_install''), (''type'', PStr ''python''),
                        (''content'', PStr ''print(1)'')],
       se_id = ''a1b2c3d4'', se_enabled = True, se_critical = False \<rparr>"

definition demo_file :: FileEntry where
  "demo_file =
     \<lparr> fe_source_path = ''C:/src/data.txt'', fe_install_path = ''app/data.txt'',
       fe_is_binary = False, fe_is_directory = False, fe_compress = True,
       fe_hash = ''00ff'', fe_version = [], fe_description = [] \<rparr>"

definition demo_registry :: RegistryEntry where
  "demo_registry =
     \<lparr> re_hive = ''HKEY_LOCAL_MACHINE'', re_key = ''Software/Demo'',
       re_value_name = ''Version'', re_value_type = ''REG_DWORD'',
       re_value_data = PInt 1, re_action = ''create'' \<rparr>"

definition demo_project :: ProjectConfig where
  "demo_project =
     default_project\<lparr> name := ''Demo'', create_uninstaller := False,
       script_elements := [demo_script], files := [demo_file],
       registry_entries := [demo_registry] \<rparr>"

text \<open>A build platform on which every call succeeds and the packaging tool exits with
  the given code and error text.\<close>

definition demo_build_platform :: "int \<Rightarrow> string \<Rightarrow> build_platform" where
  "demo_build_platform returncode stderr =
     \<lparr> b_raises = (\<lambda>tr a. None),
       mkdtemp = (\<lambda>tr prefix. Inr (''C:/Temp/'' @ prefix @ ''k3x9'')),
       subprocess_run = (\<lambda>tr cmd cwd. Inr (returncode, stderr)),
       listdir = (\<lambda>tr d. Inr [''Demo_Setup.exe'']),
       b_exists = (\<lambda>tr path. True),
       b_join = (\<lambda>a b. a @ ''/'' @ b),
       b_dirname = (\<lambda>path. rev (drop 1 (dropWhile (\<lambda>c. c \<noteq> CHR ''/'') (rev path)))),
       sys_executable = ''python.exe'' \<rparr>"

text \<open>A host, an older-shaped document, a project whose file entry has no hash yet, and
  a project whose icon is missing.\<close>

definition demo_host :: host where
  "demo_host =
     \<lparr> file_exists = (\<lambda>path. path \<in> set [''D:/out'', ''C:/src/data.txt'']),
       write_probe_fails = (\<lambda>path. False),
       sha256_hex = (\<lambda>path. Some ''ab12''),
       uuid4_str8 = (\<lambda>i. ''0f0f0f0f''),
       uuid4_hex8 = (\<lambda>i. ''1e1e1e1e''),
       now_year = 2026,
       now_isoformat = ''2026-11-03T10:00:00'',
       python_major_minor = ''3.11'' \<rparr>"

definition old_document :: pydict where
  "old_document = [(''name'', PStr ''Old''), (''version'', PStr ''0.9'')]"

definition stale_project :: ProjectConfig where
  "stale_project = default_project\<lparr>files := [demo_file\<lparr>fe_hash := []\<rparr>]\<rparr>"

definition icon_project :: ProjectConfig where
  "icon_project =
     default_project\<lparr>name := ''Demo'', output_dir := ''D:/out'', icon_path := ''missing.ico''\<rparr>"

text \<open>A project with two file entries, and a build platform on which the packaging tool
  fails and the scratch directory exists from its creation until its removal.\<close>

definition other_file :: FileEntry where
  "other_file = demo_file\<lparr>fe_source_path := ''C:/src/more.txt'', fe_install_path := ''app/more.txt''\<rparr>"

definition two_files_project :: ProjectConfig where
  "two_files_project = demo_project\<lparr>files := [demo_file, other_file]\<rparr>"


section \<open>Properties\<close>

subsection \<open>The executable name of the build spec\<close>

lemma py_replace_char_twice:
  "py_replace_char b n (py_replace_char a n s) = map (\<lambda>c. if c = a \<or> c = b then n else c) s"
  by (induction s) (auto simp: py_replace_char_def)

text \<open>
  C10. The build spec declares the executable name between \<open>name='\<close> (the end of the
  template's head) and \<open>',\<close> (the start of its tail): it is the project name with every
  space and every hyphen replaced by an underscore, every other character kept in place,
  followed by \<open>_Setup\<close>. Characters that are invalid in file names pass through:
  for the name \<open>a/b:c"d\<close> the declared name is \<open>a/b:c"d_Setup\<close>, where
  \<open>sanitize_filename\<close> would give \<open>a_b_c_d\<close>.
\<close>

theorem spec_executable_name:
  \<open>generate_spec_file p =
     spec_file_head @
     map (\<lambda>c. if c = CHR '' '' \<or> c = CHR ''-'' then CHR ''_'' else c) (name p) @
     spec_file_tail
   \<and> take 6 spec_file_tail = ''_Setup''
   \<and> name_safe (p\<lparr>name := ''a/b:c"d''\<rparr>) = ''a/b:c"d''
   \<and> sanitize_filename ''a/b:c"d'' = ''a_b_c_d''\<close>
proof -
  have "name_safe p = map (\<lambda>c. if c = CHR '' '' \<or> c = CHR ''-'' then CHR ''_'' else c) (name p)"
    by (simp add: name_safe_def py_replace_char_twice)
  moreover have "take 6 spec_file_tail = ''_Setup''"
    by (simp add: spec_file_tail_def)
  moreover have \<open>name_safe (p\<lparr>name := ''a/b:c"d''\<rparr>) = ''a/b:c"d''\<close>
    by (simp add: name_safe_def py_replace_char_def)
  moreover have \<open>sanitize_filename ''a/b:c"d'' = ''a_b_c_d''\<close>
    by (simp add: sanitize_filename_def invalid_chars_def py_replace_char_def py_strip_chars_def)
  ultimately show ?thesis
    by (simp add: generate_spec_file_def)
qed

subsection \<open>Statements and traces\<close>

lemma seq_run_append:
  "seq_run (xs @ ys) s =
     (case seq_run xs s of (None, s') \<Rightarrow> seq_run ys s' | (Some x, s') \<Rightarrow> (Some x, s'))"
  by (induction xs arbitrary: s) (auto split: prod.splits option.splits)

lemma for_each_skip:
  "(\<And>x s. x \<in> set xs \<Longrightarrow> body x s = (None, s)) \<Longrightarrow> for_each xs body s = (None, s)"
  unfolding for_each_def by (induction xs arbitrary: s) auto

lemma quiet_skip: "quiet skip"
  by (simp add: quiet_def skip_def)

lemma quiet_raise: "quiet (raise_exc x)"
  by (simp add: quiet_def raise_exc_def)

lemma quiet_emit: "\<not> is_finished e \<Longrightarrow> quiet (emit e)"
  by (simp add: quiet_def emit_def)

lemma quiet_call: "quiet (call pf a)"
  by (simp add: quiet_def call_def)

lemma quiet_seq_run: "(\<And>m. m \<in> set ms \<Longrightarrow> quiet m) \<Longrightarrow> quiet (seq_run ms)"
proof (induction ms)
  case Nil
  show ?case by (simp add: quiet_def)
next
  case (Cons m ms)
  have qm: "quiet m" and qms: "quiet (seq_run ms)"
    using Cons by auto
  show ?case
    unfolding quiet_def
  proof
    fix tr
    obtain e1 where e1: "snd (m tr) = tr @ e1" "\<not> list_ex is_finished e1"
      using qm unfolding quiet_def by blast
    obtain e2 where e2: "snd (seq_run ms (tr @ e1)) = (tr @ e1) @ e2" "\<not> list_ex is_finished e2"
      using qms unfolding quiet_def by blast
    show "\<exists>ext. snd (seq_run (m # ms) tr) = tr @ ext \<and> \<not> list_ex is_finished ext"
    proof (cases "m tr")
      case (Pair r s')
      then have s': "s' = tr @ e1" using e1 by simp
      show ?thesis
      proof (cases r)
        case None
        then show ?thesis using Pair s' e1 e2
          by (intro exI[of _ "e1 @ e2"]) simp
      next
        case (Some x)
        then show ?thesis using Pair s' e1
          by (intro exI[of _ e1]) simp
      qed
    qed
  qed
qed

lemma quiet_for_each: "(\<And>x. x \<in> set xs \<Longrightarrow> quiet (body x)) \<Longrightarrow> quiet (for_each xs body)"
  unfolding for_each_def by (rule quiet_seq_run) auto

lemma quiet_if_run: "quiet m1 \<Longrightarrow> quiet m2 \<Longrightarrow> quiet (if_run b m1 m2)"
  by (simp add: quiet_def if_run_def)

lemma quiet_try_except_pass: "quiet m \<Longrightarrow> quiet (try_except_pass m)"
  unfolding quiet_def try_except_pass_def
  by (auto split: prod.splits option.splits) (metis snd_conv)+

lemma quiet_try_except_ImportError_pass: "quiet m \<Longrightarrow> quiet (try_except_ImportError_pass m)"
  unfolding quiet_def try_except_ImportError_pass_def
  by (auto split: prod.splits option.splits exc.splits) (metis snd_conv)+

lemma quiet_install_dependency: "quiet (install_dependency pf dep)"
  by (simp add: install_dependency_def Let_def quiet_call quiet_skip)

lemma quiet_copy_file: "quiet (copy_file pf ip fi)"
  unfolding copy_file_def Let_def
  by (auto split: sum.splits intro!: quiet_skip quiet_raise quiet_seq_run quiet_if_run quiet_call)

lemma quiet_save_link: "quiet (save_link pf ip t sp)"
  unfolding save_link_def by (auto split: sum.splits intro!: quiet_raise quiet_call)

lemma quiet_create_shortcut: "quiet (create_shortcut pf ip sc)"
  unfolding create_shortcut_def Let_def
  by (auto split: option.splits
      intro!: quiet_try_except_ImportError_pass quiet_seq_run quiet_call quiet_save_link quiet_raise quiet_skip)

lemma quiet_apply_registry: "quiet (apply_registry pf re)"
  unfolding apply_registry_def Let_def
  by (auto split: pyval.splits sum.splits
      intro!: quiet_try_except_pass quiet_seq_run quiet_call quiet_raise)

lemma quiet_run_script: "quiet (run_script pf ip sc)"
  unfolding run_script_def Let_def by (auto intro!: quiet_call quiet_skip)

lemma quiet_install_steps: "quiet (seq_run (install_steps pf d ip))"
  unfolding install_steps_def run_post_install_scripts_def
  by (auto intro!: quiet_seq_run quiet_for_each quiet_call quiet_emit quiet_skip
      quiet_install_dependency quiet_copy_file quiet_create_shortcut quiet_apply_registry quiet_run_script)

subsection \<open>The emitted installer: scripts, files, registry\<close>

lemma get_event: "dict_get (ScriptElement_to_dict e) ''event'' PNone = PNone"
  by (simp add: dict_get_def ScriptElement_to_dict_def)

text \<open>
  C1. The claim is that the install routine runs the script elements whose parameters
  bag has \<open>event == "post_install"\<close>. The routine tests \<open>script.get('event')\<close> on the
  dictionary \<open>ScriptElement.to_dict\<close> built, whose keys are \<open>type\<close>, \<open>name\<close>,
  \<open>parameters\<close>, \<open>id\<close>, \<open>enabled\<close> and \<open>critical\<close>: the test fails for every element, and
  the loop over \<open>SCRIPT_ELEMENTS\<close> makes no call and leaves the trace as it was, for every
  project, platform and install path.
\<close>

theorem post_install_scripts_never_run:
  "run_post_install_scripts pf (installer_constants p) install_path tr = (None, tr)"
  unfolding run_post_install_scripts_def
  by (rule for_each_skip) (auto simp: installer_constants_def get_event skip_def)

text \<open>At the project \<open>demo_project\<close>, whose one script element has
  \<open>parameters = {event: post_install, type: python, content: print(1)}\<close>, nothing runs.\<close>

theorem post_install_scripts_never_run_witness:
  "dict_get (se_parameters demo_script) ''event'' PNone = PStr ''post_install''
   \<and> run_post_install_scripts demo_platform (installer_constants demo_project) ''C:/Demo'' [] = (None, [])"
  using post_install_scripts_never_run[of demo_platform demo_project "''C:/Demo''" "[]"]
  by (simp add: demo_script_def dict_get_def)

text \<open>
  C2. The claim is that every embedded file entry is copied. \<open>_copy_file\<close> reads the keys
  \<open>source\<close> and \<open>destination\<close>; \<open>FileEntry.to_dict\<close> writes \<open>source_path\<close> and
  \<open>install_path\<close>. Both reads give the empty string, the function returns at its first
  test, and neither a file nor a directory entry is ever copied.
\<close>

theorem copy_file_never_copies:
  "copy_file pf install_path (FileEntry_to_dict f) tr = (None, tr)
   \<and> for_each (FILES_DATA (installer_constants p)) (copy_file pf install_path) tr = (None, tr)"
proof -
  have one: "\<And>f tr. copy_file pf install_path (FileEntry_to_dict f) tr = (None, tr)"
    by (simp add: copy_file_def FileEntry_to_dict_def dict_get_def skip_def)
  have "for_each (FILES_DATA (installer_constants p)) (copy_file pf install_path) tr = (None, tr)"
    by (rule for_each_skip) (auto simp: installer_constants_def one)
  with one show ?thesis by simp
qed

theorem copy_file_never_copies_witness:
  "copy_file demo_platform ''C:/Demo'' (FileEntry_to_dict demo_file) [] = (None, [])"
  using copy_file_never_copies[of demo_platform "''C:/Demo''" demo_file "[]" demo_project]
  by simp

text \<open>
  C4. The claim is that a registry entry is applied with its declared hive, value name,
  value type and value data. \<open>_apply_registry\<close> reads the keys \<open>root\<close>, \<open>name\<close>, \<open>value\<close>
  and \<open>type\<close>, none of which \<open>RegistryEntry.to_dict\<close> writes (it writes \<open>hive\<close>,
  \<open>value_name\<close>, \<open>value_data\<close>, \<open>value_type\<close>); only \<open>key\<close> is read as declared. So every
  entry is applied under \<open>HKEY_CURRENT_USER\<close>, as a \<open>REG_SZ\<close> write of the empty string to
  the empty value name. The other half of the claim holds: whatever the dictionary
  holds, an exception raised while applying it is swallowed.
\<close>

theorem apply_registry_ignores_entry:
  "apply_registry pf (RegistryEntry_to_dict r) =
     try_except_pass
      (seq_run
        [call pf (RegCreateKey ''HKEY_CURRENT_USER'' (PStr (re_key r))),
         call pf (RegSetValueEx ''HKEY_CURRENT_USER'' (PStr (re_key r)) (PStr []) REG_SZ (PStr [])),
         call pf (RegCloseKey ''HKEY_CURRENT_USER'' (PStr (re_key r)))])
   \<and> fst (apply_registry pf reg_entry tr) = None"
proof -
  have "fst (apply_registry pf reg_entry tr) = None"
    by (simp add: apply_registry_def try_except_pass_def split: prod.splits option.splits)
  then show ?thesis
    by (simp add: apply_registry_def RegistryEntry_to_dict_def dict_get_def py_str_def Let_def)
qed

theorem apply_registry_ignores_entry_witness:
  "apply_registry demo_platform (RegistryEntry_to_dict demo_registry) [] =
     (None,
      [Call (RegCreateKey ''HKEY_CURRENT_USER'' (PStr ''Software/Demo'')),
       Call (RegSetValueEx ''HKEY_CURRENT_USER'' (PStr ''Software/Demo'') (PStr []) REG_SZ (PStr [])),
       Call (RegCloseKey ''HKEY_CURRENT_USER'' (PStr ''Software/Demo''))])"
  using apply_registry_ignores_entry[of demo_platform demo_registry]
  by (simp add: try_except_pass_def call_def demo_platform_def demo_registry_def)

subsection \<open>The uninstaller\<close>

lemma install_steps_trace:
  assumes "seq_run (install_steps pf d ip) [] = (r, tr1)"
  shows "\<not> list_ex is_finished tr1"
proof -
  obtain ext where "snd (seq_run (install_steps pf d ip) []) = [] @ ext" "\<not> list_ex is_finished ext"
    using quiet_install_steps[of pf d ip] unfolding quiet_def by blast
  with assms show ?thesis by simp
qed

lemma not_list_ex_finished: "\<not> list_ex is_finished tr \<Longrightarrow> FinishedSignal b m \<notin> set tr"
  by (auto simp: list_ex_iff)

lemma success_writes_uninstaller:
  assumes ok: "FinishedSignal True msg \<in> set (InstallThread_run pf d ip)"
    and cu: "CREATE_UNINSTALLER d"
  shows "Call (WriteFile (path_join pf ip ''uninstall.py'') (uninstall_script d ip))
           \<in> set (InstallThread_run pf d ip)"
proof -
  obtain r tr1 where s1: "seq_run (install_steps pf d ip) [] = (r, tr1)"
    by (cases "seq_run (install_steps pf d ip) []") auto
  have nf: "FinishedSignal True msg \<notin> set tr1"
    using install_steps_trace[OF s1] by (rule not_list_ex_finished)
  show ?thesis
  proof (cases r)
    case (Some x)
    then have "InstallThread_run pf d ip = tr1 @ [FinishedSignal False (''Installation failed: '' @ exc_str x)]"
      by (simp add: InstallThread_run_def install_body_def seq_run_append s1)
    with ok nf show ?thesis by simp
  next
    case None
    let ?w = "Call (WriteFile (path_join pf ip ''uninstall.py'') (uninstall_script d ip))"
    let ?tr2 = "tr1 @ [Progress 90 ''Creating uninstaller...'', ?w]"
    have body: "install_body pf d ip [] =
        (case raises pf (tr1 @ [Progress 90 ''Creating uninstaller...'']) (WriteFile (path_join pf ip ''uninstall.py'') (uninstall_script d ip)) of
           None \<Rightarrow> (None, ?tr2 @ [Progress 100 ''Installation complete!'',
                      FinishedSignal True ''Installation completed successfully!''])
         | Some x \<Rightarrow> (Some x, ?tr2))"
      using None cu
      by (simp add: install_body_def seq_run_append s1 uninstaller_step_def emit_def
          create_uninstaller_file_def call_def split: option.splits)
    show ?thesis
      by (simp add: InstallThread_run_def body split: option.splits)
  qed
qed

text \<open>
  C9. For every project the constant \<open>CREATE_UNINSTALLER\<close> of the emitted program is
  \<open>True\<close>: the program text holds the line \<open>CREATE_UNINSTALLER = True\<close> before the two
  classes, and changing the project's \<open>create_uninstaller\<close> field changes nothing in the
  text. A run of the install routine that emits the success signal has written
  \<open>uninstall.py\<close> in the install directory before.
\<close>

theorem uninstaller_always_written:
  "CREATE_UNINSTALLER (installer_constants p)
   \<and> generate_installer_script (p\<lparr>create_uninstaller := b\<rparr>) = generate_installer_script p
   \<and> (\<exists>pre. generate_installer_script p =
          pre @ ''\<newline>\<newline>CREATE_UNINSTALLER = True\<newline>\<newline>\<newline>'' @
          install_thread_source @ installer_window_source)
   \<and> (FinishedSignal True msg \<in> set (InstallThread_run pf (installer_constants p) install_path) \<longrightarrow>
        Call (WriteFile (path_join pf install_path ''uninstall.py'')
                (uninstall_script (installer_constants p) install_path))
          \<in> set (InstallThread_run pf (installer_constants p) install_path))"
proof -
  have c: "CREATE_UNINSTALLER (installer_constants p)"
    by (simp add: installer_constants_def)
  have i: "generate_installer_script (p\<lparr>create_uninstaller := b\<rparr>) = generate_installer_script p"
    by (simp add: generate_installer_script_def installer_constants_def)
  have t: "\<exists>pre. generate_installer_script p =
          pre @ ''\<newline>\<newline>CREATE_UNINSTALLER = True\<newline>\<newline>\<newline>'' @
          install_thread_source @ installer_window_source"
    unfolding generate_installer_script_def Let_def
    by (rule exI[of _ "installer_script_head @ repr_dicts (FILES_DATA (installer_constants p)) @
      ''\<newline>SHORTCUTS = '' @ repr_dicts (SHORTCUTS (installer_constants p)) @
      ''\<newline>REGISTRY_ENTRIES = '' @ repr_dicts (REGISTRY_ENTRIES (installer_constants p)) @
      ''\<newline>SCRIPT_ELEMENTS = '' @ repr_dicts (SCRIPT_ELEMENTS (installer_constants p)) @
      ''\<newline>DEPENDENCIES = '' @ repr_dicts (DEPENDENCIES (installer_constants p)) @
      ''\<newline>\<newline>PROJECT_NAME = '' @ json_dumps_str (PROJECT_NAME (installer_constants p)) @
      ''\<newline>PROJECT_VERSION = '' @ json_dumps_str (PROJECT_VERSION (installer_constants p)) @
      ''\<newline>PROJECT_DESCRIPTION = '' @ json_dumps_str (PROJECT_DESCRIPTION (installer_constants p))"])
       (simp add: c)
  from c i t success_writes_uninstaller[OF _ c] show ?thesis by blast
qed

text \<open>A run on \<open>demo_platform\<close> for \<open>demo_project\<close>, whose \<open>create_uninstaller\<close> is
  \<open>False\<close>: it succeeds and writes the uninstaller.\<close>

theorem uninstaller_always_written_witness:
  "FinishedSignal True ''Installation completed successfully!''
     \<in> set (InstallThread_run demo_platform (installer_constants demo_project) ''C:/Demo'')
   \<and> \<not> create_uninstaller demo_project
   \<and> Call (WriteFile (path_join demo_platform ''C:/Demo'' ''uninstall.py'')
            (uninstall_script (installer_constants demo_project) ''C:/Demo''))
     \<in> set (InstallThread_run demo_platform (installer_constants demo_project) ''C:/Demo'')"
proof -
  have ok: "FinishedSignal True ''Installation completed successfully!''
     \<in> set (InstallThread_run demo_platform (installer_constants demo_project) ''C:/Demo'')"
    by code_simp
  have off: "\<not> create_uninstaller demo_project"
    by (simp add: demo_project_def)
  from ok off uninstaller_always_written[of demo_project True "''Installation completed successfully!''"
      demo_platform "''C:/Demo''"]
  show ?thesis by blast
qed

subsection \<open>A printed value can be read back\<close>

text \<open>
  \<open>repr\<close> is uniquely readable: if the printed forms of two values, each followed by
  some text, give the same text, then the values are equal and so are the texts that
  follow (for a number, provided no digit follows it).
\<close>

lemma hexdigit_inj: "a < 16 \<Longrightarrow> b < 16 \<Longrightarrow> hexdigit a = hexdigit b \<Longrightarrow> a = b"
proof -
  assume a: "a < 16" and b: "b < 16" and e: "hexdigit a = hexdigit b"
  have d: "distinct ''0123456789abcdef''" by simp
  have l: "length ''0123456789abcdef'' = 16" by simp
  have "''0123456789abcdef'' ! a = ''0123456789abcdef'' ! b"
    using e a b unfolding hexdigit_def by (simp only: mod_less)
  then show "a = b"
    using nth_eq_iff_index_eq[OF d, of a b] a b unfolding l by blast
qed

lemma hex2_inj: "hex2 c = hex2 d \<Longrightarrow> c = d"
proof -
  assume e: "hex2 c = hex2 d"
  let ?n = "of_char c :: nat" and ?m = "of_char d :: nat"
  have n: "?n < 256" and m: "?m < 256" by (rule nat_of_char_less_256)+
  have "hexdigit (?n div 16) = hexdigit (?m div 16)" "hexdigit (?n mod 16) = hexdigit (?m mod 16)"
    using e by (simp_all add: hex2_def)
  moreover have "?n div 16 < 16" "?m div 16 < 16" "?n mod 16 < 16" "?m mod 16 < 16"
    using n m by arith+
  ultimately have "?n div 16 = ?m div 16" "?n mod 16 = ?m mod 16"
    by (simp_all add: hexdigit_inj)
  then have "?n = ?m" by (metis div_mult_mod_eq)
  then show "c = d" by (simp add: of_char_eq_iff)
qed

lemma hexdigit_digit: "n < 10 \<Longrightarrow> is_digit (hexdigit n)"
proof -
  assume "n < 10"
  then have "n \<in> {0, 1, 2, 3, 4, 5, 6, 7, 8, 9}" by auto
  then show ?thesis by (auto simp: hexdigit_def is_digit_def)
qed

lemma show_nat_digits: "c \<in> set (show_nat n) \<Longrightarrow> is_digit c"
proof (induction n arbitrary: c rule: show_nat.induct)
  case (1 n)
  show ?case
  proof (cases "n < 10")
    case True
    then have "show_nat n = [hexdigit n]" by (subst show_nat.simps) simp
    then show ?thesis using 1(2) hexdigit_digit[OF True] by simp
  next
    case False
    then have n: "show_nat n = show_nat (n div 10) @ [hexdigit (n mod 10)]"
      by (subst show_nat.simps) simp
    have "n mod 10 < 10" by simp
    then have "is_digit (hexdigit (n mod 10))" by (rule hexdigit_digit)
    then show ?thesis using 1(1)[OF False] 1(2) n by auto
  qed
qed

lemma show_nat_nonempty: "show_nat n \<noteq> []"
  by (subst show_nat.simps) simp

lemma show_nat_length_one: "length (show_nat n) = 1 \<Longrightarrow> n < 10"
proof (rule ccontr)
  assume l: "length (show_nat n) = 1" and "\<not> n < 10"
  then have "show_nat n = show_nat (n div 10) @ [hexdigit (n mod 10)]"
    by (subst show_nat.simps) simp
  then have "length (show_nat n) = length (show_nat (n div 10)) + 1" by simp
  with l show_nat_nonempty[of "n div 10"] show False by simp
qed

lemma show_nat_inj: "show_nat n = show_nat m \<Longrightarrow> n = m"
proof (induction n arbitrary: m rule: show_nat.induct)
  case (1 n)
  show ?case
  proof (cases "n < 10")
    case True
    then have n: "show_nat n = [hexdigit n]" by (subst show_nat.simps) simp
    then have "length (show_nat m) = 1" using 1(2) by simp
    then have m: "m < 10" by (rule show_nat_length_one)
    then have "show_nat m = [hexdigit m]" by (subst show_nat.simps) simp
    with n 1(2) have "hexdigit n = hexdigit m" by simp
    then show ?thesis using True m by (intro hexdigit_inj) simp_all
  next
    case False
    then have n: "show_nat n = show_nat (n div 10) @ [hexdigit (n mod 10)]"
      by (subst show_nat.simps) simp
    have "\<not> m < 10"
    proof
      assume "m < 10"
      then have "show_nat m = [hexdigit m]" by (subst show_nat.simps) simp
      with 1(2) have "length (show_nat n) = 1" by simp
      then show False using False show_nat_length_one by blast
    qed
    then have m: "show_nat m = show_nat (m div 10) @ [hexdigit (m mod 10)]"
      by (subst show_nat.simps) simp
    from n m 1(2) have e: "show_nat (n div 10) = show_nat (m div 10)"
      "hexdigit (n mod 10) = hexdigit (m mod 10)" by simp_all
    have "n div 10 = m div 10" using 1(1)[OF False e(1)] .
    moreover have "n mod 10 = m mod 10"
      using e(2) by (intro hexdigit_inj) simp_all
    ultimately show ?thesis by (metis div_mult_mod_eq)
  qed
qed

lemma takeWhile_all: "(\<And>c. c \<in> set a \<Longrightarrow> P c) \<Longrightarrow> number_ends r \<Longrightarrow> P = is_digit
    \<Longrightarrow> takeWhile P (a @ r) = a"
proof -
  assume a: "\<And>c. c \<in> set a \<Longrightarrow> P c" and r: "number_ends r" and p: "P = is_digit"
  have "takeWhile P (a @ r) = a @ takeWhile P r"
    using a by (rule takeWhile_append2)
  moreover have "takeWhile P r = []"
    using r p by (cases r) (simp_all add: number_ends_def)
  ultimately show ?thesis by simp
qed

lemma digits_readable:
  assumes "\<And>c. c \<in> set a \<Longrightarrow> is_digit c" and "\<And>c. c \<in> set b \<Longrightarrow> is_digit c"
    and "a @ r = b @ s" and "number_ends r" and "number_ends s"
  shows "a = b \<and> r = s"
proof -
  have "takeWhile is_digit (a @ r) = a"
    using assms(1,4) by (intro takeWhile_all) simp_all
  moreover have "takeWhile is_digit (b @ s) = b"
    using assms(2,5) by (intro takeWhile_all) simp_all
  ultimately have "a = b" using assms(3) by simp
  with assms(3) show ?thesis by simp
qed

lemma show_nat_first: "\<exists>c cs. show_nat n = c # cs \<and> is_digit c"
proof (cases "show_nat n")
  case Nil
  then show ?thesis using show_nat_nonempty by blast
next
  case (Cons c cs)
  then have "c \<in> set (show_nat n)" by simp
  then have "is_digit c" by (rule show_nat_digits)
  then show ?thesis using Cons by blast
qed

lemma minus_not_digit: "\<not> is_digit CHR ''-''"
  by (simp add: is_digit_def)

lemma show_int_readable:
  assumes "show_int i @ r = show_int j @ s" and "number_ends r" and "number_ends s"
  shows "i = j \<and> r = s"
proof -
  obtain c' cs' where c': "show_nat (nat i) = c' # cs'" "is_digit c'"
    using show_nat_first by blast
  obtain d' ds' where d': "show_nat (nat j) = d' # ds'" "is_digit d'"
    using show_nat_first by blast
  show ?thesis
  proof (cases "i < 0")
    case True
    then have i: "show_int i = CHR ''-'' # show_nat (nat (- i))" by (simp add: show_int_def)
    have j: "j < 0"
    proof (rule ccontr)
      assume "\<not> j < 0"
      then have "show_int j = d' # ds'" using d'(1) by (simp add: show_int_def)
      with assms(1) i have "d' = CHR ''-''" by simp
      with d'(2) minus_not_digit show False by simp
    qed
    then have "show_int j = CHR ''-'' # show_nat (nat (- j))" by (simp add: show_int_def)
    with assms(1) i have "show_nat (nat (- i)) @ r = show_nat (nat (- j)) @ s" by simp
    then have "show_nat (nat (- i)) = show_nat (nat (- j)) \<and> r = s"
      using assms(2,3) by (intro digits_readable) (auto dest: show_nat_digits)
    then have "nat (- i) = nat (- j)" "r = s" using show_nat_inj by auto
    then show ?thesis using True j by simp
  next
    case False
    then have i: "show_int i = c' # cs'" using c'(1) by (simp add: show_int_def)
    have j: "\<not> j < 0"
    proof
      assume "j < 0"
      then have "show_int j = CHR ''-'' # show_nat (nat (- j))" by (simp add: show_int_def)
      with assms(1) i have "c' = CHR ''-''" by simp
      with c'(2) minus_not_digit show False by simp
    qed
    then have "show_int j = show_nat (nat j)" by (simp add: show_int_def)
    moreover have "show_int i = show_nat (nat i)" using False by (simp add: show_int_def)
    ultimately have "show_nat (nat i) @ r = show_nat (nat j) @ s" using assms(1) by simp
    then have "show_nat (nat i) = show_nat (nat j) \<and> r = s"
      using assms(2,3) by (intro digits_readable) (auto dest: show_nat_digits)
    then have "nat i = nat j" "r = s" using show_nat_inj by auto
    then show ?thesis using False j by simp
  qed
qed

lemma show_int_first: "\<exists>c cs. show_int i = c # cs \<and> char_kind c = 2"
proof (cases "i < 0")
  case True
  then have "show_int i = CHR ''-'' # show_nat (nat (- i))" by (simp add: show_int_def)
  moreover have "char_kind CHR ''-'' = 2" by (simp add: char_kind_def)
  ultimately show ?thesis by blast
next
  case False
  obtain c cs where c: "show_nat (nat i) = c # cs" "is_digit c"
    using show_nat_first by blast
  have "show_int i = c # cs" using False c(1) by (simp add: show_int_def)
  moreover have "c \<noteq> CHR ''N''" "c \<noteq> CHR ''T''" "c \<noteq> CHR ''F''"
    using c(2) by (auto simp: is_digit_def)
  then have "char_kind c = 2" using c(2) by (simp add: char_kind_def)
  ultimately show ?thesis by blast
qed

lemma hex2_append: "(hex2 c @ X = hex2 d @ Y) = (c = d \<and> X = Y)"
proof
  assume e: "hex2 c @ X = hex2 d @ Y"
  have "length (hex2 c) = length (hex2 d)" by (simp add: hex2_def)
  then have "hex2 c = hex2 d \<and> X = Y" using e by (simp add: append_eq_append_conv)
  then show "c = d \<and> X = Y" using hex2_inj by blast
qed simp

lemma repr_char_readable:
  assumes q: "q = CHR 0x27 \<or> q = CHR 0x22" and e: "repr_char q c @ X = repr_char q d @ Y"
  shows "c = d \<and> X = Y"
  using e q by (auto simp: repr_char_def hex2_append split: if_splits)

lemma repr_char_hd: "q = CHR 0x27 \<or> q = CHR 0x22 \<Longrightarrow> \<exists>e es. repr_char q c = e # es \<and> e \<noteq> q"
  by (auto simp: repr_char_def)

lemma repr_body_readable:
  assumes q: "q = CHR 0x27 \<or> q = CHR 0x22"
  shows "concat (map (repr_char q) s) @ q # r = concat (map (repr_char q) t) @ q # u
    \<Longrightarrow> s = t \<and> r = u"
proof (induction s arbitrary: t)
  case Nil
  show ?case
  proof (cases t)
    case Nil
    then show ?thesis using Nil.prems by simp
  next
    case (Cons d ds)
    obtain e es where "repr_char q d = e # es" "e \<noteq> q" using repr_char_hd[OF q] by blast
    then show ?thesis using Nil.prems Cons by auto
  qed
next
  case (Cons c cs)
  show ?case
  proof (cases t)
    case Nil
    obtain e es where "repr_char q c = e # es" "e \<noteq> q" using repr_char_hd[OF q] by blast
    then show ?thesis using Cons.prems Nil by auto
  next
    case t: (Cons d ds)
    have "repr_char q c @ (concat (map (repr_char q) cs) @ q # r)
        = repr_char q d @ (concat (map (repr_char q) ds) @ q # u)"
      using Cons.prems t by simp
    then have "c = d \<and> concat (map (repr_char q) cs) @ q # r = concat (map (repr_char q) ds) @ q # u"
      by (rule repr_char_readable[OF q])
    then show ?thesis using Cons.IH[of ds] t by simp
  qed
qed

lemma py_repr_str_form:
  "\<exists>q. (q = CHR 0x27 \<or> q = CHR 0x22) \<and> py_repr_str s = q # concat (map (repr_char q) s) @ [q]"
  by (simp add: py_repr_str_def Let_def)

lemma py_repr_str_readable: "py_repr_str s @ r = py_repr_str t @ u \<Longrightarrow> s = t \<and> r = u"
proof -
  assume e: "py_repr_str s @ r = py_repr_str t @ u"
  obtain q where q: "q = CHR 0x27 \<or> q = CHR 0x22"
    and s: "py_repr_str s = q # concat (map (repr_char q) s) @ [q]"
    using py_repr_str_form by blast
  obtain q' where t: "py_repr_str t = q' # concat (map (repr_char q') t) @ [q']"
    using py_repr_str_form by blast
  from e s t have "q' = q" by simp
  with e s t have "concat (map (repr_char q) s) @ q # r = concat (map (repr_char q) t) @ q # u"
    by simp
  then show ?thesis by (rule repr_body_readable[OF q])
qed

lemma py_repr_str_first: "\<exists>c cs. py_repr_str s = c # cs \<and> char_kind c = 3"
proof -
  obtain q where q: "q = CHR 0x27 \<or> q = CHR 0x22"
    and s: "py_repr_str s = q # concat (map (repr_char q) s) @ [q]"
    using py_repr_str_form by blast
  have "char_kind q = 3" using q by (auto simp: char_kind_def is_digit_def)
  then show ?thesis using s by blast
qed

lemma py_repr_first: "\<exists>c cs. py_repr v = c # cs \<and> char_kind c = kind v"
proof (cases v)
  case (PInt i)
  then show ?thesis using show_int_first[of i] by simp
next
  case (PStr s)
  then show ?thesis using py_repr_str_first[of s] by simp
qed (simp_all add: char_kind_def is_digit_def)

lemma join_step: "py_join sep (x # xs) = (if xs = [] then x else x @ sep @ py_join sep xs)"
  by (cases xs) simp_all

lemma comma_not_digit: "\<not> is_digit CHR '',''"
  by (simp add: is_digit_def)

lemma join_readable:
  assumes cl: "\<not> is_digit cl" "cl \<noteq> CHR '',''"
    and first: "\<And>y. \<exists>c cs. f y = c # cs \<and> c \<noteq> cl"
  shows "(\<And>x y r s. x \<in> set xs \<Longrightarrow> f x @ r = f y @ s \<Longrightarrow> number_ends r \<Longrightarrow> number_ends s
            \<Longrightarrow> x = y \<and> r = s)
    \<Longrightarrow> py_join '', '' (map f xs) @ cl # r = py_join '', '' (map f ys) @ cl # s
    \<Longrightarrow> xs = ys \<and> r = s"
proof (induction xs arbitrary: ys)
  case Nil
  show ?case
  proof (cases ys)
    case Nil
    then show ?thesis using Nil.prems(2) by simp
  next
    case (Cons y ys')
    obtain c cs where "f y = c # cs" "c \<noteq> cl" using first by blast
    then show ?thesis using Nil.prems(2) Cons by (simp add: join_step split: if_splits)
  qed
next
  case (Cons x xs)
  show ?case
  proof (cases ys)
    case Nil
    obtain c cs where "f x = c # cs" "c \<noteq> cl" using first by blast
    then show ?thesis using Cons.prems(2) Nil by (auto simp: join_step split: if_splits)
  next
    case ys: (Cons y ys')
    define R1 where "R1 = (if xs = [] then cl # r else '', '' @ py_join '', '' (map f xs) @ cl # r)"
    define R2 where "R2 = (if ys' = [] then cl # s else '', '' @ py_join '', '' (map f ys') @ cl # s)"
    have e: "f x @ R1 = f y @ R2"
      using Cons.prems(2) ys by (auto simp: join_step R1_def R2_def split: if_splits)
    have n1: "number_ends R1" using cl(1) by (simp add: R1_def number_ends_def comma_not_digit)
    have n2: "number_ends R2" using cl(1) by (simp add: R2_def number_ends_def comma_not_digit)
    have xy: "x = y \<and> R1 = R2" using Cons.prems(1)[of x R1 y R2] e n1 n2 by simp
    show ?thesis
    proof (cases "xs = []")
      case True
      then have "ys' = []" using xy cl(2) by (auto simp: R1_def R2_def split: if_splits)
      then show ?thesis using True xy ys by (simp add: R1_def R2_def)
    next
      case False
      then have ne: "ys' \<noteq> []" using xy cl(2) by (auto simp: R1_def R2_def split: if_splits)
      then have "py_join '', '' (map f xs) @ cl # r = py_join '', '' (map f ys') @ cl # s"
        using False xy by (simp add: R1_def R2_def)
      moreover have "x' = y \<and> r = s" if "x' \<in> set xs" "f x' @ r = f y @ s" "number_ends r"
          "number_ends s" for x' y r s
        using Cons.prems(1)[of x' r y s] that by simp
      ultimately have "xs = ys' \<and> r = s" using Cons.IH[of ys'] by blast
      then show ?thesis using xy ys by simp
    qed
  qed
qed

lemma py_repr_readable:
  "py_repr v @ r = py_repr w @ s \<Longrightarrow> number_ends r \<Longrightarrow> number_ends s \<Longrightarrow> v = w \<and> r = s"
proof (induction v arbitrary: w r s)
  case PNone
  obtain c cs where c: "py_repr w = c # cs" "char_kind c = kind w" using py_repr_first by blast
  have "char_kind c = 0" using PNone.prems(1) c(1) by (auto simp: char_kind_def)
  then have "w = PNone" using c(2) by (cases w) simp_all
  then show ?case using PNone.prems(1) by simp
next
  case (PBool b)
  obtain c cs where c: "py_repr w = c # cs" "char_kind c = kind w" using py_repr_first by blast
  have "char_kind c = 1" using PBool.prems(1) c(1) by (auto simp: char_kind_def split: if_splits)
  then obtain b' where w: "w = PBool b'" using c(2) by (cases w) simp_all
  then show ?case using PBool.prems(1) by (auto split: if_splits)
next
  case (PInt i)
  obtain c cs where c: "py_repr w = c # cs" "char_kind c = kind w" using py_repr_first by blast
  obtain c' cs' where c': "show_int i = c' # cs'" "char_kind c' = 2" using show_int_first by blast
  have "char_kind c = 2" using PInt.prems(1) c(1) c' by simp
  then obtain j where w: "w = PInt j" using c(2) by (cases w) simp_all
  then have "i = j \<and> r = s" using PInt.prems show_int_readable[of i r j s] by simp
  then show ?case using w by simp
next
  case (PStr x)
  obtain c cs where c: "py_repr w = c # cs" "char_kind c = kind w" using py_repr_first by blast
  obtain c' cs' where c': "py_repr_str x = c' # cs'" "char_kind c' = 3"
    using py_repr_str_first by blast
  have "char_kind c = 3" using PStr.prems(1) c(1) c' by simp
  then obtain y where w: "w = PStr y" using c(2) by (cases w) simp_all
  then have "x = y \<and> r = s" using PStr.prems(1) py_repr_str_readable[of x r y s] by simp
  then show ?case using w by simp
next
  case (PList xs)
  obtain c cs where c: "py_repr w = c # cs" "char_kind c = kind w" using py_repr_first by blast
  have "char_kind c = 4" using PList.prems(1) c(1) by (auto simp: char_kind_def is_digit_def)
  then obtain ys where w: "w = PList ys" using c(2) by (cases w) simp_all
  have e: "py_join '', '' (map py_repr xs) @ CHR '']'' # r
         = py_join '', '' (map py_repr ys) @ CHR '']'' # s"
    using PList.prems(1) w by simp
  have first: "\<exists>c cs. py_repr y = c # cs \<and> c \<noteq> CHR '']''" for y
  proof -
    obtain c cs where "py_repr y = c # cs" "char_kind c = kind y" using py_repr_first by blast
    moreover have "char_kind CHR '']'' = 6" by (simp add: char_kind_def is_digit_def)
    moreover have "kind y \<noteq> 6" by (cases y) simp_all
    ultimately show ?thesis by auto
  qed
  have "xs = ys \<and> r = s"
  proof (rule join_readable[where f = py_repr and cl = "CHR '']''"])
    show "\<not> is_digit CHR '']''" by (simp add: is_digit_def)
    show "CHR '']'' \<noteq> CHR '',''" by simp
    show "\<exists>c cs. py_repr y = c # cs \<and> c \<noteq> CHR '']''" for y by (rule first)
    show "x = y \<and> r = s" if "x \<in> set xs" "py_repr x @ r = py_repr y @ s" "number_ends r"
      "number_ends s" for x y r s using PList.IH that by blast
    show "py_join '', '' (map py_repr xs) @ CHR '']'' # r
        = py_join '', '' (map py_repr ys) @ CHR '']'' # s" by (rule e)
  qed
  then show ?case using w by simp
next
  case (PDict kvs)
  obtain c cs where c: "py_repr w = c # cs" "char_kind c = kind w" using py_repr_first by blast
  have "char_kind c = 5" using PDict.prems(1) c(1) by (auto simp: char_kind_def is_digit_def)
  then obtain kws where w: "w = PDict kws" using c(2) by (cases w) simp_all
  let ?f = "\<lambda>kv. py_repr_str (fst kv) @ '': '' @ py_repr (snd kv)"
  have e: "py_join '', '' (map ?f kvs) @ CHR ''}'' # r = py_join '', '' (map ?f kws) @ CHR ''}'' # s"
    using PDict.prems(1) w by simp
  have first: "\<exists>c cs. ?f y = c # cs \<and> c \<noteq> CHR ''}''" for y
  proof -
    obtain c cs where "py_repr_str (fst y) = c # cs" "char_kind c = 3"
      using py_repr_str_first by blast
    moreover have "char_kind CHR ''}'' = 6" by (simp add: char_kind_def is_digit_def)
    ultimately show ?thesis by auto
  qed
  have "kvs = kws \<and> r = s"
  proof (rule join_readable[where f = ?f and cl = "CHR ''}''"])
    show "\<not> is_digit CHR ''}''" by (simp add: is_digit_def)
    show "CHR ''}'' \<noteq> CHR '',''" by simp
    show "\<exists>c cs. ?f y = c # cs \<and> c \<noteq> CHR ''}''" for y by (rule first)
    show "x = y \<and> r = s" if x: "x \<in> set kvs" and eq: "?f x @ r = ?f y @ s" and n: "number_ends r"
      "number_ends s" for x y r s
    proof -
      have "py_repr_str (fst x) @ ('': '' @ py_repr (snd x) @ r)
          = py_repr_str (fst y) @ ('': '' @ py_repr (snd y) @ s)" using eq by simp
      then have k: "fst x = fst y" and "'': '' @ py_repr (snd x) @ r = '': '' @ py_repr (snd y) @ s"
        using py_repr_str_readable by blast+
      then have "py_repr (snd x) @ r = py_repr (snd y) @ s" by simp
      moreover have "snd x \<in> Basic_BNFs.snds x" by (cases x) simp
      ultimately have "snd x = snd y \<and> r = s" using PDict.IH[OF x] n by blast
      then show ?thesis using k by (simp add: prod_eq_iff)
    qed
    show "py_join '', '' (map ?f kvs) @ CHR ''}'' # r = py_join '', '' (map ?f kws) @ CHR ''}'' # s"
      by (rule e)
  qed
  then show ?case using w by simp
qed

lemma repr_dicts_readable:
  assumes "repr_dicts a @ r = repr_dicts b @ s" and "number_ends r" and "number_ends s"
  shows "a = b \<and> r = s"
proof -
  have "PList (map PDict a) = PList (map PDict b) \<and> r = s"
    using assms unfolding repr_dicts_def by (rule py_repr_readable)
  moreover have "inj PDict" by (simp add: inj_on_def)
  ultimately show ?thesis by (simp add: inj_map_eq_map)
qed

subsection \<open>The synthesizers are functions of the project content\<close>

lemma type_value_inj: "type_value a = type_value b \<Longrightarrow> a = b"
  by (cases a; cases b; simp)

lemma ScriptElement_to_dict_inj: "ScriptElement_to_dict a = ScriptElement_to_dict b \<Longrightarrow> a = b"
  by (auto simp: ScriptElement_to_dict_def dest: type_value_inj)

lemma ShortcutConfig_to_dict_inj: "ShortcutConfig_to_dict a = ShortcutConfig_to_dict b \<Longrightarrow> a = b"
  by (simp add: ShortcutConfig_to_dict_def)

lemma RegistryEntry_to_dict_inj: "RegistryEntry_to_dict a = RegistryEntry_to_dict b \<Longrightarrow> a = b"
  by (simp add: RegistryEntry_to_dict_def)

lemma FileEntry_to_dict_inj: "FileEntry_to_dict a = FileEntry_to_dict b \<Longrightarrow> a = b"
  by (simp add: FileEntry_to_dict_def)

lemma Dependency_to_dict_inj: "Dependency_to_dict a = Dependency_to_dict b \<Longrightarrow> a = b"
  by (simp add: Dependency_to_dict_def)

lemma map_dict_inj:
  assumes "\<And>a b. f a = f b \<Longrightarrow> a = b"
  shows "(map (\<lambda>x. PDict (f x)) xs = map (\<lambda>x. PDict (f x)) ys) = (xs = ys)"
proof -
  have "inj (\<lambda>x. PDict (f x))" using assms by (auto simp: inj_on_def)
  then show ?thesis by (rule inj_map_eq_map)
qed

lemma read_line:
  "py_repr v @ CHR 0x0A # X = py_repr w @ CHR 0x0A # Y \<Longrightarrow> v = w \<and> X = Y"
proof -
  assume e: "py_repr v @ CHR 0x0A # X = py_repr w @ CHR 0x0A # Y"
  have "number_ends (CHR 0x0A # X)" "number_ends (CHR 0x0A # Y)"
    by (simp_all add: number_ends_def is_digit_def)
  then have "v = w \<and> CHR 0x0A # X = CHR 0x0A # Y" using e py_repr_readable by blast
  then show ?thesis by simp
qed

lemma read_five_lines:
  assumes "H @ py_repr a1 @ CHR 0x0A # s1 @ py_repr a2 @ CHR 0x0A # s2 @ py_repr a3 @ CHR 0x0A # s3 @
             py_repr a4 @ CHR 0x0A # s4 @ py_repr a5 @ CHR 0x0A # T
         = H @ py_repr b1 @ CHR 0x0A # s1 @ py_repr b2 @ CHR 0x0A # s2 @ py_repr b3 @ CHR 0x0A # s3 @
             py_repr b4 @ CHR 0x0A # s4 @ py_repr b5 @ CHR 0x0A # T'"
  shows "a1 = b1 \<and> a2 = b2 \<and> a3 = b3 \<and> a4 = b4 \<and> a5 = b5 \<and> T = T'"
proof -
  from assms have "py_repr a1 @ CHR 0x0A # s1 @ py_repr a2 @ CHR 0x0A # s2 @ py_repr a3 @ CHR 0x0A # s3 @
             py_repr a4 @ CHR 0x0A # s4 @ py_repr a5 @ CHR 0x0A # T
         = py_repr b1 @ CHR 0x0A # s1 @ py_repr b2 @ CHR 0x0A # s2 @ py_repr b3 @ CHR 0x0A # s3 @
             py_repr b4 @ CHR 0x0A # s4 @ py_repr b5 @ CHR 0x0A # T'"
    by (simp only: same_append_eq)
  then have 1: "a1 = b1" and "s1 @ py_repr a2 @ CHR 0x0A # s2 @ py_repr a3 @ CHR 0x0A # s3 @
             py_repr a4 @ CHR 0x0A # s4 @ py_repr a5 @ CHR 0x0A # T
         = s1 @ py_repr b2 @ CHR 0x0A # s2 @ py_repr b3 @ CHR 0x0A # s3 @
             py_repr b4 @ CHR 0x0A # s4 @ py_repr b5 @ CHR 0x0A # T'"
    using read_line by blast+
  then have "py_repr a2 @ CHR 0x0A # s2 @ py_repr a3 @ CHR 0x0A # s3 @
             py_repr a4 @ CHR 0x0A # s4 @ py_repr a5 @ CHR 0x0A # T
         = py_repr b2 @ CHR 0x0A # s2 @ py_repr b3 @ CHR 0x0A # s3 @
             py_repr b4 @ CHR 0x0A # s4 @ py_repr b5 @ CHR 0x0A # T'"
    by (simp only: same_append_eq)
  then have 2: "a2 = b2" and "s2 @ py_repr a3 @ CHR 0x0A # s3 @
             py_repr a4 @ CHR 0x0A # s4 @ py_repr a5 @ CHR 0x0A # T
         = s2 @ py_repr b3 @ CHR 0x0A # s3 @
             py_repr b4 @ CHR 0x0A # s4 @ py_repr b5 @ CHR 0x0A # T'"
    using read_line by blast+
  then have "py_repr a3 @ CHR 0x0A # s3 @ py_repr a4 @ CHR 0x0A # s4 @ py_repr a5 @ CHR 0x0A # T
         = py_repr b3 @ CHR 0x0A # s3 @ py_repr b4 @ CHR 0x0A # s4 @ py_repr b5 @ CHR 0x0A # T'"
    by (simp only: same_append_eq)
  then have 3: "a3 = b3" and "s3 @ py_repr a4 @ CHR 0x0A # s4 @ py_repr a5 @ CHR 0x0A # T
         = s3 @ py_repr b4 @ CHR 0x0A # s4 @ py_repr b5 @ CHR 0x0A # T'"
    using read_line by blast+
  then have "py_repr a4 @ CHR 0x0A # s4 @ py_repr a5 @ CHR 0x0A # T
         = py_repr b4 @ CHR 0x0A # s4 @ py_repr b5 @ CHR 0x0A # T'"
    by (simp only: same_append_eq)
  then have 4: "a4 = b4" and "s4 @ py_repr a5 @ CHR 0x0A # T = s4 @ py_repr b5 @ CHR 0x0A # T'"
    using read_line by blast+
  then have "py_repr a5 @ CHR 0x0A # T = py_repr b5 @ CHR 0x0A # T'"
    by (simp only: same_append_eq)
  then have "a5 = b5 \<and> T = T'" by (rule read_line)
  then show ?thesis using 1 2 3 4 by simp
qed

lemma script_lines:
  "\<exists>T. generate_installer_script p =
     installer_script_head @
     py_repr (PList (map (\<lambda>f. PDict (FileEntry_to_dict f)) (files p))) @
     CHR 0x0A # ''SHORTCUTS = '' @
     py_repr (PList (map (\<lambda>s. PDict (ShortcutConfig_to_dict s)) (shortcuts p))) @
     CHR 0x0A # ''REGISTRY_ENTRIES = '' @
     py_repr (PList (map (\<lambda>r. PDict (RegistryEntry_to_dict r)) (registry_entries p))) @
     CHR 0x0A # ''SCRIPT_ELEMENTS = '' @
     py_repr (PList (map (\<lambda>e. PDict (ScriptElement_to_dict e)) (script_elements p))) @
     CHR 0x0A # ''DEPENDENCIES = '' @
     py_repr (PList (map (\<lambda>d. PDict (Dependency_to_dict d)) (dependencies p))) @
     CHR 0x0A # T"
  by (simp add: generate_installer_script_def installer_constants_def repr_dicts_def comp_def
      del: py_repr.simps)

lemma script_read:
  assumes "generate_installer_script p =
     installer_script_head @ py_repr va @
     ''\<newline>SHORTCUTS = '' @ py_repr vb @
     ''\<newline>REGISTRY_ENTRIES = '' @ py_repr vc @
     ''\<newline>SCRIPT_ELEMENTS = '' @ py_repr vd @
     ''\<newline>DEPENDENCIES = '' @ py_repr ve @ ''\<newline>'' @ rest"
  shows "va = PList (map (\<lambda>f. PDict (FileEntry_to_dict f)) (files p))
    \<and> vb = PList (map (\<lambda>s. PDict (ShortcutConfig_to_dict s)) (shortcuts p))
    \<and> vc = PList (map (\<lambda>r. PDict (RegistryEntry_to_dict r)) (registry_entries p))
    \<and> vd = PList (map (\<lambda>e. PDict (ScriptElement_to_dict e)) (script_elements p))
    \<and> ve = PList (map (\<lambda>d. PDict (Dependency_to_dict d)) (dependencies p))"
proof -
  obtain T where T: "generate_installer_script p =
     installer_script_head @
     py_repr (PList (map (\<lambda>f. PDict (FileEntry_to_dict f)) (files p))) @
     CHR 0x0A # ''SHORTCUTS = '' @
     py_repr (PList (map (\<lambda>s. PDict (ShortcutConfig_to_dict s)) (shortcuts p))) @
     CHR 0x0A # ''REGISTRY_ENTRIES = '' @
     py_repr (PList (map (\<lambda>r. PDict (RegistryEntry_to_dict r)) (registry_entries p))) @
     CHR 0x0A # ''SCRIPT_ELEMENTS = '' @
     py_repr (PList (map (\<lambda>e. PDict (ScriptElement_to_dict e)) (script_elements p))) @
     CHR 0x0A # ''DEPENDENCIES = '' @
     py_repr (PList (map (\<lambda>d. PDict (Dependency_to_dict d)) (dependencies p))) @
     CHR 0x0A # T"
    using script_lines by blast
  have "installer_script_head @ py_repr va @
     CHR 0x0A # ''SHORTCUTS = '' @ py_repr vb @
     CHR 0x0A # ''REGISTRY_ENTRIES = '' @ py_repr vc @
     CHR 0x0A # ''SCRIPT_ELEMENTS = '' @ py_repr vd @
     CHR 0x0A # ''DEPENDENCIES = '' @ py_repr ve @ CHR 0x0A # rest
   = installer_script_head @
     py_repr (PList (map (\<lambda>f. PDict (FileEntry_to_dict f)) (files p))) @
     CHR 0x0A # ''SHORTCUTS = '' @
     py_repr (PList (map (\<lambda>s. PDict (ShortcutConfig_to_dict s)) (shortcuts p))) @
     CHR 0x0A # ''REGISTRY_ENTRIES = '' @
     py_repr (PList (map (\<lambda>r. PDict (RegistryEntry_to_dict r)) (registry_entries p))) @
     CHR 0x0A # ''SCRIPT_ELEMENTS = '' @
     py_repr (PList (map (\<lambda>e. PDict (ScriptElement_to_dict e)) (script_elements p))) @
     CHR 0x0A # ''DEPENDENCIES = '' @
     py_repr (PList (map (\<lambda>d. PDict (Dependency_to_dict d)) (dependencies p))) @
     CHR 0x0A # T"
    using assms unfolding T by (simp del: py_repr.simps)
  then show ?thesis using read_five_lines by blast
qed

text \<open>
  C5. Both synthesizers are functions of the project alone: they read no clock, random
  source or other state. The installer script depends only on \<open>name\<close>, \<open>version\<close>,
  \<open>description\<close> and the five entry lists, and the build spec only on \<open>name\<close>: two
  projects that agree on these give the same text, character for character, whatever
  their other fields (the \<open>created\<close> and \<open>modified\<close> timestamps among them). The text
  of the installer script carries the five lists in list order: after the fixed head
  stands the list literal whose elements are the printed dictionaries of the file entries,
  one per entry and in the order of \<open>files\<close>, and likewise for the shortcuts, registry
  entries, script elements and dependencies. That text can be read in one way only: any
  five values whose printed forms stand at these five places are the lists of the entries'
  dictionaries in the order of the project's lists. Hence two projects whose installer
  scripts are equal have equal lists, element for element and in the same order, and two
  projects with the same build spec have the same sanitised name.
\<close>

theorem synthesis_deterministic:
  "(name p = name q \<and> version p = version q \<and> description p = description q
      \<and> files p = files q \<and> shortcuts p = shortcuts q \<and> registry_entries p = registry_entries q
      \<and> script_elements p = script_elements q \<and> dependencies p = dependencies q
     \<longrightarrow> generate_installer_script p = generate_installer_script q)
   \<and> (name p = name q \<longrightarrow> generate_spec_file p = generate_spec_file q)
   \<and> (\<exists>rest. generate_installer_script p =
         installer_script_head @
         ''['' @ py_join '', '' (map (\<lambda>f. py_repr (PDict (FileEntry_to_dict f))) (files p)) @ '']'' @
         ''\<newline>SHORTCUTS = '' @
         ''['' @ py_join '', '' (map (\<lambda>s. py_repr (PDict (ShortcutConfig_to_dict s))) (shortcuts p)) @ '']'' @
         ''\<newline>REGISTRY_ENTRIES = '' @
         ''['' @ py_join '', '' (map (\<lambda>r. py_repr (PDict (RegistryEntry_to_dict r))) (registry_entries p)) @ '']'' @
         ''\<newline>SCRIPT_ELEMENTS = '' @
         ''['' @ py_join '', '' (map (\<lambda>e. py_repr (PDict (ScriptElement_to_dict e))) (script_elements p)) @ '']'' @
         ''\<newline>DEPENDENCIES = '' @
         ''['' @ py_join '', '' (map (\<lambda>d. py_repr (PDict (Dependency_to_dict d))) (dependencies p)) @ '']'' @
         ''\<newline>'' @ rest)
   \<and> (generate_installer_script p =
         installer_script_head @ py_repr va @
         ''\<newline>SHORTCUTS = '' @ py_repr vb @
         ''\<newline>REGISTRY_ENTRIES = '' @ py_repr vc @
         ''\<newline>SCRIPT_ELEMENTS = '' @ py_repr vd @
         ''\<newline>DEPENDENCIES = '' @ py_repr ve @ ''\<newline>'' @ rest'
       \<longrightarrow> va = PList (map (\<lambda>f. PDict (FileEntry_to_dict f)) (files p))
         \<and> vb = PList (map (\<lambda>s. PDict (ShortcutConfig_to_dict s)) (shortcuts p))
         \<and> vc = PList (map (\<lambda>r. PDict (RegistryEntry_to_dict r)) (registry_entries p))
         \<and> vd = PList (map (\<lambda>e. PDict (ScriptElement_to_dict e)) (script_elements p))
         \<and> ve = PList (map (\<lambda>d. PDict (Dependency_to_dict d)) (dependencies p)))
   \<and> (generate_installer_script p = generate_installer_script q
       \<longrightarrow> files p = files q \<and> shortcuts p = shortcuts q \<and> registry_entries p = registry_entries q
         \<and> script_elements p = script_elements q \<and> dependencies p = dependencies q)
   \<and> (generate_spec_file p = generate_spec_file q \<longrightarrow> name_safe p = name_safe q)"
proof -
  have 1: "generate_installer_script p = generate_installer_script q"
    if "name p = name q \<and> version p = version q \<and> description p = description q
      \<and> files p = files q \<and> shortcuts p = shortcuts q \<and> registry_entries p = registry_entries q
      \<and> script_elements p = script_elements q \<and> dependencies p = dependencies q"
  proof -
    have "installer_constants p = installer_constants q"
      using that by (simp add: installer_constants_def)
    then show ?thesis by (simp add: generate_installer_script_def)
  qed
  have 2: "generate_spec_file p = generate_spec_file q" if "name p = name q"
    using that by (simp add: generate_spec_file_def name_safe_def)
  have 3: "\<exists>rest. generate_installer_script p =
         installer_script_head @
         ''['' @ py_join '', '' (map (\<lambda>f. py_repr (PDict (FileEntry_to_dict f))) (files p)) @ '']'' @
         ''\<newline>SHORTCUTS = '' @
         ''['' @ py_join '', '' (map (\<lambda>s. py_repr (PDict (ShortcutConfig_to_dict s))) (shortcuts p)) @ '']'' @
         ''\<newline>REGISTRY_ENTRIES = '' @
         ''['' @ py_join '', '' (map (\<lambda>r. py_repr (PDict (RegistryEntry_to_dict r))) (registry_entries p)) @ '']'' @
         ''\<newline>SCRIPT_ELEMENTS = '' @
         ''['' @ py_join '', '' (map (\<lambda>e. py_repr (PDict (ScriptElement_to_dict e))) (script_elements p)) @ '']'' @
         ''\<newline>DEPENDENCIES = '' @
         ''['' @ py_join '', '' (map (\<lambda>d. py_repr (PDict (Dependency_to_dict d))) (dependencies p)) @ '']'' @
         ''\<newline>'' @ rest"
    by (simp add: generate_installer_script_def installer_constants_def repr_dicts_def comp_def
        del: py_repr.simps(6))
  have 5: "files p = files q \<and> shortcuts p = shortcuts q \<and> registry_entries p = registry_entries q
         \<and> script_elements p = script_elements q \<and> dependencies p = dependencies q"
    if e: "generate_installer_script p = generate_installer_script q"
  proof -
    obtain T where "generate_installer_script q =
       installer_script_head @
       py_repr (PList (map (\<lambda>f. PDict (FileEntry_to_dict f)) (files q))) @
       CHR 0x0A # ''SHORTCUTS = '' @
       py_repr (PList (map (\<lambda>s. PDict (ShortcutConfig_to_dict s)) (shortcuts q))) @
       CHR 0x0A # ''REGISTRY_ENTRIES = '' @
       py_repr (PList (map (\<lambda>r. PDict (RegistryEntry_to_dict r)) (registry_entries q))) @
       CHR 0x0A # ''SCRIPT_ELEMENTS = '' @
       py_repr (PList (map (\<lambda>e. PDict (ScriptElement_to_dict e)) (script_elements q))) @
       CHR 0x0A # ''DEPENDENCIES = '' @
       py_repr (PList (map (\<lambda>d. PDict (Dependency_to_dict d)) (dependencies q))) @
       CHR 0x0A # T"
      using script_lines by blast
    then have "generate_installer_script p =
       installer_script_head @
       py_repr (PList (map (\<lambda>f. PDict (FileEntry_to_dict f)) (files q))) @
       ''\<newline>SHORTCUTS = '' @
       py_repr (PList (map (\<lambda>s. PDict (ShortcutConfig_to_dict s)) (shortcuts q))) @
       ''\<newline>REGISTRY_ENTRIES = '' @
       py_repr (PList (map (\<lambda>r. PDict (RegistryEntry_to_dict r)) (registry_entries q))) @
       ''\<newline>SCRIPT_ELEMENTS = '' @
       py_repr (PList (map (\<lambda>e. PDict (ScriptElement_to_dict e)) (script_elements q))) @
       ''\<newline>DEPENDENCIES = '' @
       py_repr (PList (map (\<lambda>d. PDict (Dependency_to_dict d)) (dependencies q))) @
       ''\<newline>'' @ T"
      using e by (simp del: py_repr.simps)
    then have "PList (map (\<lambda>f. PDict (FileEntry_to_dict f)) (files q))
          = PList (map (\<lambda>f. PDict (FileEntry_to_dict f)) (files p))
      \<and> PList (map (\<lambda>s. PDict (ShortcutConfig_to_dict s)) (shortcuts q))
          = PList (map (\<lambda>s. PDict (ShortcutConfig_to_dict s)) (shortcuts p))
      \<and> PList (map (\<lambda>r. PDict (RegistryEntry_to_dict r)) (registry_entries q))
          = PList (map (\<lambda>r. PDict (RegistryEntry_to_dict r)) (registry_entries p))
      \<and> PList (map (\<lambda>e. PDict (ScriptElement_to_dict e)) (script_elements q))
          = PList (map (\<lambda>e. PDict (ScriptElement_to_dict e)) (script_elements p))
      \<and> PList (map (\<lambda>d. PDict (Dependency_to_dict d)) (dependencies q))
          = PList (map (\<lambda>d. PDict (Dependency_to_dict d)) (dependencies p))"
      by (rule script_read)
    then show ?thesis
      by (simp add: map_dict_inj[OF FileEntry_to_dict_inj] map_dict_inj[OF ShortcutConfig_to_dict_inj]
          map_dict_inj[OF RegistryEntry_to_dict_inj] map_dict_inj[OF ScriptElement_to_dict_inj]
          map_dict_inj[OF Dependency_to_dict_inj])
  qed
  have 6: "name_safe p = name_safe q" if "generate_spec_file p = generate_spec_file q"
    using that by (simp add: generate_spec_file_def)
  show ?thesis
    using 1 2 3 script_read[of p va vb vc vd ve rest'] 5 6 by blast
qed

text \<open>At the project \<open>two_files_project\<close>: a change of \<open>modified\<close> and \<open>output_dir\<close> leaves both
  texts as they are, the script text holds the two file entries in their order, and
  swapping the two entries changes the text.\<close>

theorem synthesis_deterministic_witness:
  "generate_installer_script (two_files_project\<lparr>modified := ''2031-05-06T07:08:09'', output_dir := ''D:/out''\<rparr>)
     = generate_installer_script two_files_project
   \<and> generate_spec_file (two_files_project\<lparr>modified := ''2031-05-06T07:08:09'', output_dir := ''D:/out''\<rparr>)
     = generate_spec_file two_files_project
   \<and> modified (two_files_project\<lparr>modified := ''2031-05-06T07:08:09'', output_dir := ''D:/out''\<rparr>)
     \<noteq> modified two_files_project
   \<and> generate_installer_script two_files_project =
       installer_script_head @
       py_repr (PList [PDict (FileEntry_to_dict demo_file), PDict (FileEntry_to_dict other_file)]) @
       ''\<newline>SHORTCUTS = '' @ py_repr (PList []) @
       ''\<newline>REGISTRY_ENTRIES = '' @ py_repr (PList [PDict (RegistryEntry_to_dict demo_registry)]) @
       ''\<newline>SCRIPT_ELEMENTS = '' @ py_repr (PList [PDict (ScriptElement_to_dict demo_script)]) @
       ''\<newline>DEPENDENCIES = '' @ py_repr (PList []) @
       ''\<newline>'' @
       ''\<newline>PROJECT_NAME = '' @ json_dumps_str ''Demo'' @
       ''\<newline>PROJECT_VERSION = '' @ json_dumps_str ''1.0.0'' @
       ''\<newline>PROJECT_DESCRIPTION = '' @ json_dumps_str [] @
       ''\<newline>\<newline>CREATE_UNINSTALLER = '' @ py_repr (PBool True) @
       ''\<newline>\<newline>\<newline>'' @ install_thread_source @ installer_window_source
   \<and> PList [PDict (FileEntry_to_dict demo_file), PDict (FileEntry_to_dict other_file)]
     = PList (map (\<lambda>f. PDict (FileEntry_to_dict f)) (files two_files_project))
   \<and> generate_installer_script (two_files_project\<lparr>files := [other_file, demo_file]\<rparr>)
     \<noteq> generate_installer_script two_files_project"
proof -
  let ?p = two_files_project
  let ?q = "two_files_project\<lparr>modified := ''2031-05-06T07:08:09'', output_dir := ''D:/out''\<rparr>"
  let ?r = "two_files_project\<lparr>files := [other_file, demo_file]\<rparr>"
  let ?rest = "''\<newline>PROJECT_NAME = '' @ json_dumps_str ''Demo'' @
       ''\<newline>PROJECT_VERSION = '' @ json_dumps_str ''1.0.0'' @
       ''\<newline>PROJECT_DESCRIPTION = '' @ json_dumps_str [] @
       ''\<newline>\<newline>CREATE_UNINSTALLER = '' @ py_repr (PBool True) @
       ''\<newline>\<newline>\<newline>'' @ install_thread_source @ installer_window_source"
  have m: "modified ?q \<noteq> modified ?p"
    by (simp add: two_files_project_def demo_project_def default_project_def)
  have h: "generate_installer_script ?p =
       installer_script_head @
       py_repr (PList [PDict (FileEntry_to_dict demo_file), PDict (FileEntry_to_dict other_file)]) @
       ''\<newline>SHORTCUTS = '' @ py_repr (PList []) @
       ''\<newline>REGISTRY_ENTRIES = '' @ py_repr (PList [PDict (RegistryEntry_to_dict demo_registry)]) @
       ''\<newline>SCRIPT_ELEMENTS = '' @ py_repr (PList [PDict (ScriptElement_to_dict demo_script)]) @
       ''\<newline>DEPENDENCIES = '' @ py_repr (PList []) @
       ''\<newline>'' @ ?rest"
    by (simp add: generate_installer_script_def installer_constants_def repr_dicts_def
        two_files_project_def demo_project_def default_project_def del: py_repr.simps)
  have d: "files ?r \<noteq> files ?p"
    by (simp add: two_files_project_def demo_file_def other_file_def)
  have 1: "generate_installer_script ?q = generate_installer_script ?p"
    and 2: "generate_spec_file ?q = generate_spec_file ?p"
    using synthesis_deterministic[of ?q ?p] by simp_all
  have 3: "PList [PDict (FileEntry_to_dict demo_file), PDict (FileEntry_to_dict other_file)]
     = PList (map (\<lambda>f. PDict (FileEntry_to_dict f)) (files ?p))"
    using synthesis_deterministic[of ?p ?p
        "PList [PDict (FileEntry_to_dict demo_file), PDict (FileEntry_to_dict other_file)]"
        "PList []" "PList [PDict (RegistryEntry_to_dict demo_registry)]"
        "PList [PDict (ScriptElement_to_dict demo_script)]" "PList []" ?rest] h
    by blast
  have 4: "generate_installer_script ?r \<noteq> generate_installer_script ?p"
    using synthesis_deterministic[of ?r ?p] d by blast
  show ?thesis using m h 1 2 3 4 by blast
qed

subsection \<open>The generation run\<close>

lemma steadyI:
  "(\<And>s. \<exists>ext. snd (m s) = s\<lparr>g_trace := g_trace s @ ext\<rparr> \<and> \<not> list_ex g_is_finished ext)
     \<Longrightarrow> steady m"
  by (simp add: steady_def)

lemma steadyD:
  "steady m \<Longrightarrow> \<exists>ext. snd (m s) = s\<lparr>g_trace := g_trace s @ ext\<rparr> \<and> \<not> list_ex g_is_finished ext"
  by (simp add: steady_def)

lemma steady_skip: "steady skip"
  unfolding steady_def skip_def by (auto intro: exI[of _ "[]"])

lemma steady_raise: "steady (raise_exc x)"
  unfolding steady_def raise_exc_def by (auto intro: exI[of _ "[]"])

lemma steady_emit: "\<not> g_is_finished e \<Longrightarrow> steady (g_emit e)"
  unfolding steady_def g_emit_def by (auto intro: exI[of _ "[e]"])

lemma steady_call: "steady (g_call bp a)"
  unfolding steady_def g_call_def by (auto intro: exI[of _ "[GCall a]"])

lemma steady_seq_run: "(\<And>m. m \<in> set ms \<Longrightarrow> steady m) \<Longrightarrow> steady (seq_run ms)"
proof (induction ms)
  case Nil
  show ?case unfolding steady_def by (auto intro: exI[of _ "[]"])
next
  case (Cons m ms)
  have qm: "steady m" and qms: "steady (seq_run ms)"
    using Cons by auto
  show ?case
  proof (rule steadyI)
    fix s
    obtain r s' where ms: "m s = (r, s')" by (cases "m s") auto
    obtain e1 where e1: "s' = s\<lparr>g_trace := g_trace s @ e1\<rparr>" "\<not> list_ex g_is_finished e1"
      using steadyD[OF qm, of s] ms by auto
    obtain e2 where e2: "snd (seq_run ms s') = s'\<lparr>g_trace := g_trace s' @ e2\<rparr>"
        "\<not> list_ex g_is_finished e2"
      using steadyD[OF qms, of s'] by auto
    show "\<exists>ext. snd (seq_run (m # ms) s) = s\<lparr>g_trace := g_trace s @ ext\<rparr>
            \<and> \<not> list_ex g_is_finished ext"
    proof (cases r)
      case None
      then show ?thesis using ms e1 e2 by (intro exI[of _ "e1 @ e2"]) simp
    next
      case (Some x)
      then show ?thesis using ms e1 by (intro exI[of _ e1]) simp
    qed
  qed
qed

lemma steady_if_run: "steady m1 \<Longrightarrow> steady m2 \<Longrightarrow> steady (if_run b m1 m2)"
  by (simp add: steady_def if_run_def)

lemma steady_call_result:
  assumes "\<And>v. steady (k v)"
  shows "steady (g_call_result q a k)"
proof (rule steadyI)
  fix s :: gstate
  let ?s' = "s\<lparr>g_trace := g_trace s @ [GCall a]\<rparr>"
  show "\<exists>ext. snd (g_call_result q a k s) = s\<lparr>g_trace := g_trace s @ ext\<rparr>
          \<and> \<not> list_ex g_is_finished ext"
  proof (cases "q (g_trace s)")
    case (Inl x)
    then show ?thesis by (intro exI[of _ "[GCall a]"]) (simp add: g_call_result_def)
  next
    case (Inr v)
    obtain e where e: "snd (k v ?s') = ?s'\<lparr>g_trace := g_trace ?s' @ e\<rparr>" "\<not> list_ex g_is_finished e"
      using steadyD[OF assms, of v ?s'] by auto
    show ?thesis using Inr e by (intro exI[of _ "GCall a # e"]) (simp add: g_call_result_def)
  qed
qed

lemma steady_relocate: "steady (relocate bp op dd fs)"
  unfolding relocate_def Let_def
  by (auto split: list.splits
      intro!: steady_seq_run steady_emit steady_raise steady_if_run steady_call steady_skip)

lemma steady_check_output: "steady (check_output bp op td res)"
  unfolding check_output_def Let_def
  by (auto intro!: steady_seq_run steady_emit steady_raise steady_if_run steady_skip
      steady_call_result steady_relocate)

lemma steady_run_pyinstaller: "steady (run_pyinstaller bp op td)"
  unfolding run_pyinstaller_def
  by (auto intro!: steady_seq_run steady_emit steady_call_result steady_check_output)

lemma steady_after_temp_dir: "steady (seq_run (tl (build_steps bp p op d)))"
  unfolding build_steps_def
  by (auto intro!: steady_seq_run steady_emit steady_call steady_run_pyinstaller)

lemma build_steps_split: "build_steps bp p op d = set_temp_dir d # tl (build_steps bp p op d)"
  by (simp add: build_steps_def)

lemma try_outcome_steps:
  assumes "\<not> list_ex g_is_finished (g_trace s)"
  shows "try_outcome (seq_run (build_steps bp p op d @ [g_emit (GFinished op True)]) s) op (Some d)"
proof -
  let ?s0 = "s\<lparr>g_temp_dir := Some d\<rparr>"
  obtain r s' where rs: "seq_run (tl (build_steps bp p op d)) ?s0 = (r, s')"
    by (cases "seq_run (tl (build_steps bp p op d)) ?s0") auto
  obtain e where e: "s' = ?s0\<lparr>g_trace := g_trace ?s0 @ e\<rparr>" "\<not> list_ex g_is_finished e"
    using steadyD[OF steady_after_temp_dir, of bp p op d ?s0] rs by auto
  have "seq_run (build_steps bp p op d) s = (r, s')"
    by (subst build_steps_split) (simp add: set_temp_dir_def rs)
  then show ?thesis
    using e assms
    by (cases r) (auto simp: seq_run_append try_outcome_def g_emit_def)
qed

lemma try_outcome_generator_try:
  "try_outcome (generator_try bp p op \<lparr>g_trace = [], g_temp_dir = None\<rparr>) op
     (case mkdtemp bp [GProgress 0 ''Starting installer generation...'',
                       GLog ''=== Installer Generation Started ===''] ''instgen_'' of
        Inl x \<Rightarrow> None | Inr d \<Rightarrow> Some d)"
proof (cases "mkdtemp bp [GProgress 0 ''Starting installer generation...'',
                           GLog ''=== Installer Generation Started ===''] ''instgen_''")
  case (Inl x)
  then show ?thesis
    by (simp add: generator_try_def g_emit_def g_call_result_def try_outcome_def)
next
  case (Inr d)
  let ?s = "\<lparr>g_trace = [GProgress 0 ''Starting installer generation...'',
                         GLog ''=== Installer Generation Started ==='', GCall (Mkdtemp ''instgen_'')],
              g_temp_dir = None\<rparr>"
  have "generator_try bp p op \<lparr>g_trace = [], g_temp_dir = None\<rparr> =
          seq_run (build_steps bp p op d @ [g_emit (GFinished op True)]) ?s"
    using Inr
    by (simp add: generator_try_def g_emit_def g_call_result_def split: prod.splits option.splits)
  moreover have "try_outcome (seq_run (build_steps bp p op d @ [g_emit (GFinished op True)]) ?s) op (Some d)"
    by (rule try_outcome_steps) simp
  ultimately show ?thesis using Inr by simp
qed

lemma demo_success_run:
  "generator_run (demo_build_platform 0 []) p ''D:/out/Demo_Setup.exe'' =
     [GProgress 0 ''Starting installer generation...'',
      GLog ''=== Installer Generation Started ==='',
      GCall (Mkdtemp ''instgen_''),
      GProgress 5 ''Created temp directory: C:/Temp/instgen_k3x9'',
      GCall (WriteText ''C:/Temp/instgen_k3x9/installer.py'' (generate_installer_script p)),
      GProgress 20 ''Generated installer script'',
      GCall (WriteText ''C:/Temp/instgen_k3x9/installer.spec'' (generate_spec_file p)),
      GProgress 35 ''Generated PyInstaller spec'',
      GLog ''Running PyInstaller...'',
      GProgress 40 ''Running PyInstaller...'',
      GCall (SubprocessRun
         [''python.exe'', ''-m'', ''PyInstaller'', ''--noconfirm'', ''--clean'', ''installer.spec'']
         ''C:/Temp/instgen_k3x9''),
      GProgress 80 ''PyInstaller finished, checking output...'',
      GCall (ListDir ''C:/Temp/instgen_k3x9/dist''),
      GLog (''Files in dist: '' @ repr_names [''Demo_Setup.exe'']),
      GLog ''Found generated installer: C:/Temp/instgen_k3x9/dist/Demo_Setup.exe'',
      GCall (MoveFile ''C:/Temp/instgen_k3x9/dist/Demo_Setup.exe'' ''D:/out/Demo_Setup.exe''),
      GLog (''Installer created '' @ arrow_utf8 @ '' D:/out/Demo_Setup.exe''),
      GProgress 95 ''Installer file moved to output location'',
      GProgress 100 ''Installer build completed'',
      GLog ''Installer generation successful'',
      GFinished ''D:/out/Demo_Setup.exe'' True,
      GCall (RmTreeDir ''C:/Temp/instgen_k3x9''),
      GLog ''Cleaned up temp directory: C:/Temp/instgen_k3x9'']"
  by (simp add: generator_run_def generator_try_def build_steps_def run_pyinstaller_def check_output_def
        g_emit_def g_call_def g_call_result_def set_temp_dir_def raise_exc_def Let_def
        demo_build_platform_def relocate_def if_run_def skip_def py_endswith_def
        generator_except_def generator_finally_def pyinstaller_cmd_def)

text \<open>
  C3. The claim is that the finished signal is the last event of a run. It is not: the
  \<open>finally\<close> block of \<open>run\<close> removes the scratch directory and logs the outcome of that
  after the handler or the try block has emitted the finished signal. On a platform where
  every call succeeds the run for \<open>demo_project\<close> emits the success signal and ends with
  the log line of the cleanup.
\<close>

theorem finished_not_last_counterexample:
  "last (generator_run (demo_build_platform 0 []) demo_project ''D:/out/Demo_Setup.exe'')
     = GLog ''Cleaned up temp directory: C:/Temp/instgen_k3x9''
   \<and> GFinished ''D:/out/Demo_Setup.exe'' True
       \<in> set (generator_run (demo_build_platform 0 []) demo_project ''D:/out/Demo_Setup.exe'')
   \<and> is_signal (last (generator_run (demo_build_platform 0 []) demo_project ''D:/out/Demo_Setup.exe''))"
  by (simp add: demo_success_run)

text \<open>
  C3, amended. Every run, successful or failed, emits the finished signal exactly once:
  the trace is a part without finished signal, then the finished signal (with the output
  path on success, with the failure message otherwise), then the cleanup of the \<open>finally\<close>
  block and nothing else. The cleanup is determined by the platform: when \<open>mkdtemp\<close>
  raised, nothing follows the finished signal; when it returned the scratch directory \<open>d\<close>,
  and \<open>d\<close> is a non-empty path that exists when the \<open>finally\<close> block is reached, exactly
  two events follow, the removal of \<open>d\<close> itself and one log line, which is
  \<open>Cleaned up temp directory: d\<close> when the removal did not raise and
  \<open>Warning: Could not clean temp directory: ...\<close> with the text of the exception when it
  did; when \<open>d\<close> is empty or does not exist then, nothing follows. No progress event and
  no other finished signal follows the finished signal.
\<close>

theorem finished_then_only_cleanup:
  "\<exists>pre msg ok.
      \<not> list_ex g_is_finished pre
      \<and> ((ok \<and> msg = output_path)
          \<or> (\<not> ok \<and> (\<exists>e. msg = ''Installer generation failed: '' @ exc_str e)))
      \<and> generator_run bp p output_path =
          pre @ [GFinished msg ok] @
          (case mkdtemp bp [GProgress 0 ''Starting installer generation...'',
                            GLog ''=== Installer Generation Started ===''] ''instgen_'' of
             Inl x \<Rightarrow> []
           | Inr d \<Rightarrow>
               if d \<noteq> [] \<and> b_exists bp (pre @ [GFinished msg ok]) d then
                 [GCall (RmTreeDir d),
                  GLog (case b_raises bp (pre @ [GFinished msg ok]) (RmTreeDir d) of
                          None \<Rightarrow> ''Cleaned up temp directory: '' @ d
                        | Some e \<Rightarrow> ''Warning: Could not clean temp directory: '' @ exc_str e)]
               else [])"
proof -
  let ?td = "case mkdtemp bp [GProgress 0 ''Starting installer generation...'',
                       GLog ''=== Installer Generation Started ===''] ''instgen_'' of
        Inl x \<Rightarrow> None | Inr d \<Rightarrow> Some d"
  let ?rs = "generator_try bp p output_path \<lparr>g_trace = [], g_temp_dir = None\<rparr>"
  obtain r s where rs: "?rs = (r, s)" by (cases ?rs) auto
  have shape: "try_outcome (r, s) output_path ?td"
    using try_outcome_generator_try[of bp p output_path] rs by simp
  have "\<exists>pre msg ok. g_trace (generator_except (r, s)) = pre @ [GFinished msg ok]
          \<and> \<not> list_ex g_is_finished pre
          \<and> ((ok \<and> msg = output_path)
              \<or> (\<not> ok \<and> (\<exists>e. msg = ''Installer generation failed: '' @ exc_str e)))"
  proof (cases r)
    case None
    then show ?thesis using shape by (auto simp: try_outcome_def generator_except_def)
  next
    case (Some e)
    then have "g_trace (generator_except (r, s)) =
        (g_trace s @ [GLog (''ERROR: '' @ ''Installer generation failed: '' @ exc_str e)]) @
        [GFinished (''Installer generation failed: '' @ exc_str e) False]"
      by (simp add: generator_except_def Let_def)
    moreover have "\<not> list_ex g_is_finished
        (g_trace s @ [GLog (''ERROR: '' @ ''Installer generation failed: '' @ exc_str e)])"
      using Some shape by (simp add: try_outcome_def)
    ultimately show ?thesis by blast
  qed
  then obtain pre msg ok where pre: "g_trace (generator_except (r, s)) = pre @ [GFinished msg ok]"
    "\<not> list_ex g_is_finished pre"
    "(ok \<and> msg = output_path) \<or> (\<not> ok \<and> (\<exists>e. msg = ''Installer generation failed: '' @ exc_str e))"
    by blast
  have td: "g_temp_dir (generator_except (r, s)) = ?td"
    using shape by (cases r) (auto simp: try_outcome_def generator_except_def Let_def)
  have "generator_run bp p output_path =
          pre @ [GFinished msg ok] @
          (case mkdtemp bp [GProgress 0 ''Starting installer generation...'',
                            GLog ''=== Installer Generation Started ===''] ''instgen_'' of
             Inl x \<Rightarrow> []
           | Inr d \<Rightarrow>
               if d \<noteq> [] \<and> b_exists bp (pre @ [GFinished msg ok]) d then
                 [GCall (RmTreeDir d),
                  GLog (case b_raises bp (pre @ [GFinished msg ok]) (RmTreeDir d) of
                          None \<Rightarrow> ''Cleaned up temp directory: '' @ d
                        | Some e \<Rightarrow> ''Warning: Could not clean temp directory: '' @ exc_str e)]
               else [])"
    using rs pre(1) td
    by (simp add: generator_run_def generator_finally_def split: sum.splits option.splits)
  with pre(2,3) show ?thesis by blast
qed

text \<open>The run on the platform where every call succeeds, for \<open>demo_project\<close>.\<close>

theorem finished_then_only_cleanup_witness:
  "\<exists>pre msg ok.
      \<not> list_ex g_is_finished pre
      \<and> ((ok \<and> msg = ''D:/out/Demo_Setup.exe'')
          \<or> (\<not> ok \<and> (\<exists>e. msg = ''Installer generation failed: '' @ exc_str e)))
      \<and> generator_run (demo_build_platform 0 []) demo_project ''D:/out/Demo_Setup.exe'' =
          pre @ [GFinished msg ok] @
          (case mkdtemp (demo_build_platform 0 [])
                  [GProgress 0 ''Starting installer generation...'',
                   GLog ''=== Installer Generation Started ===''] ''instgen_'' of
             Inl x \<Rightarrow> []
           | Inr d \<Rightarrow>
               if d \<noteq> [] \<and> b_exists (demo_build_platform 0 []) (pre @ [GFinished msg ok]) d then
                 [GCall (RmTreeDir d),
                  GLog (case b_raises (demo_build_platform 0 []) (pre @ [GFinished msg ok]) (RmTreeDir d) of
                          None \<Rightarrow> ''Cleaned up temp directory: '' @ d
                        | Some e \<Rightarrow> ''Warning: Could not clean temp directory: '' @ exc_str e)]
               else [])"
  by (rule finished_then_only_cleanup)



subsection \<open>The validator\<close>

lemma version_100: "version_pattern_match ''1.0.0''"
  by (simp add: version_pattern_match_def is_digit_def)

lemma py_strip_nonempty: "py_strip s \<noteq> [] \<Longrightarrow> s \<noteq> []"
  by (auto simp: py_strip_def)

text \<open>
  C6. The first half of the claim holds as stated. The second half does not: the
  validator also warns about an icon, a license file, a certificate or a file entry that
  is set and missing on disk, and the claim leaves these fields open. The project
  \<open>icon_project\<close> meets every condition of the claim (name set, version \<open>1.0.0\<close>, an
  existing writable output directory, the placeholder in the install directory), and the
  validator returns one warning for it, about the icon \<open>missing.ico\<close>.
\<close>

theorem validate_missing_icon_counterexample:
  "py_strip (name icon_project) \<noteq> [] \<and> version icon_project = ''1.0.0''
   \<and> file_exists demo_host (output_dir icon_project)
   \<and> \<not> write_probe_fails demo_host (output_dir icon_project)
   \<and> py_contains ''{name}'' (default_install_dir icon_project)
   \<and> validate_project demo_host icon_project = (True, [], [''Icon file not found: missing.ico''])"
  by code_simp

text \<open>
  C6, amended. A project with empty \<open>name\<close>, \<open>version\<close> and \<open>output_dir\<close> is invalid with
  exactly the three errors of the required fields. A project whose name is not blank,
  whose version is \<open>1.0.0\<close>, whose output directory exists and passes the write probe,
  whose install directory holds \<open>{name}\<close>, and none of whose referenced files is missing
  (the icon if set, the license file if enabled and set, the certificate if signing is
  on and set, the source of every file entry that is not a directory) is valid with no
  error and no warning.
\<close>

theorem validate_examples:
  "(name p = [] \<and> version p = [] \<and> output_dir p = [] \<longrightarrow>
      \<not> fst (validate_project h p) \<and>
      fst (snd (validate_project h p)) =
        [''Project name is required'', ''Version is required'', ''Output directory is required''])
   \<and> (py_strip (name p) \<noteq> [] \<and> version p = ''1.0.0'' \<and> output_dir p \<noteq> []
        \<and> file_exists h (output_dir p) \<and> \<not> write_probe_fails h (output_dir p)
        \<and> py_contains ''{name}'' (default_install_dir p)
        \<and> (icon_path p = [] \<or> file_exists h (icon_path p))
        \<and> (license_enabled p \<and> license_file p \<noteq> [] \<longrightarrow> file_exists h (license_file p))
        \<and> (sign_installer p \<and> certificate_path p \<noteq> [] \<longrightarrow> file_exists h (certificate_path p))
        \<and> (\<forall>f \<in> set (files p). fe_is_directory f \<or> file_exists h (fe_source_path f))
      \<longrightarrow> validate_project h p = (True, [], []))"
proof -
  have empty: "\<not> fst (validate_project h p) \<and>
      fst (snd (validate_project h p)) =
        [''Project name is required'', ''Version is required'', ''Output directory is required'']"
    if "name p = [] \<and> version p = [] \<and> output_dir p = []"
    using that by (simp add: validate_project_def Let_def)
  have clean: "validate_project h p = (True, [], [])"
    if a: "py_strip (name p) \<noteq> [] \<and> version p = ''1.0.0'' \<and> output_dir p \<noteq> []
        \<and> file_exists h (output_dir p) \<and> \<not> write_probe_fails h (output_dir p)
        \<and> py_contains ''{name}'' (default_install_dir p)
        \<and> (icon_path p = [] \<or> file_exists h (icon_path p))
        \<and> (license_enabled p \<and> license_file p \<noteq> [] \<longrightarrow> file_exists h (license_file p))
        \<and> (sign_installer p \<and> certificate_path p \<noteq> [] \<longrightarrow> file_exists h (certificate_path p))
        \<and> (\<forall>f \<in> set (files p). fe_is_directory f \<or> file_exists h (fe_source_path f))"
  proof -
    have n: "name p \<noteq> []" using a by (auto dest: py_strip_nonempty)
    have v: "py_strip ''1.0.0'' = ''1.0.0''"
      by (simp add: py_strip_def py_isspace_def)
    have fs: "concat (map (\<lambda>file_entry.
                      if \<not> fe_is_directory file_entry \<and> \<not> file_exists h (fe_source_path file_entry)
                      then [''File not found: '' @ fe_source_path file_entry] else [])
                    (files p)) = []"
      using a by auto
    show ?thesis
      unfolding validate_project_def Let_def fs
      using a n by (auto simp: v version_100)
  qed
  from empty clean show ?thesis by blast
qed

theorem validate_examples_witness:
  "fst (snd (validate_project demo_host
              (default_project\<lparr>name := [], version := [], output_dir := []\<rparr>))) =
     [''Project name is required'', ''Version is required'', ''Output directory is required'']
   \<and> validate_project demo_host (demo_project\<lparr>output_dir := ''D:/out''\<rparr>) = (True, [], [])"
proof -
  have s: "py_strip ''Demo'' = ''Demo''"
    by (simp add: py_strip_def py_isspace_def)
  have c: "py_contains ''{name}'' (''%PROGRAMFILES%'' @ [CHR 0x5C] @ ''{name}'')"
    by simp
  show ?thesis
    using validate_examples[of "default_project\<lparr>name := [], version := [], output_dir := []\<rparr>" demo_host]
      validate_examples[of "demo_project\<lparr>output_dir := ''D:/out''\<rparr>" demo_host]
    by (simp add: demo_project_def default_project_def demo_host_def demo_file_def s c)
qed

subsection \<open>The project document\<close>

lemma map_result_map:
  "(\<And>x. x \<in> set xs \<Longrightarrow> f (g x) = Inr x) \<Longrightarrow> map_result f (map g xs) = Inr xs"
  by (induction xs) auto

lemma map_result_enumerate:
  "(\<And>i x. x \<in> set xs \<Longrightarrow> f i (g x) = Inr x) \<Longrightarrow>
     map_result (\<lambda>ix. f (fst ix) (snd ix)) (enumerate n (map g xs)) = Inr xs"
  by (induction xs arbitrary: n) auto

lemma ShortcutConfig_roundtrip: "ShortcutConfig_from_dict (ShortcutConfig_to_dict s) = Inr s"
  by (simp add: ShortcutConfig_from_dict_def ShortcutConfig_to_dict_def check_kwargs_def
      ill_typed_def get_str_def)

lemma RegistryEntry_roundtrip: "RegistryEntry_from_dict (RegistryEntry_to_dict r) = Inr r"
  by (simp add: RegistryEntry_from_dict_def RegistryEntry_to_dict_def check_kwargs_def
      ill_typed_def get_str_def dict_get_def)

lemma Dependency_roundtrip: "Dependency_from_dict (Dependency_to_dict d) = Inr d"
  by (simp add: Dependency_from_dict_def Dependency_to_dict_def check_kwargs_def
      ill_typed_def get_str_def get_bool_def)

lemma FileEntry_roundtrip:
  "FileEntry_from_dict h (FileEntry_to_dict f) = Inr (FileEntry_post_init h f)"
  by (cases f) (simp add: FileEntry_from_dict_def FileEntry_to_dict_def check_kwargs_def
      ill_typed_def get_str_def get_bool_def)

lemma type_of_value_type_value: "type_of_value (PStr (type_value t)) = Inr t"
  by (cases t) (simp_all add: type_of_value_def all_types_def)

lemma ScriptElement_roundtrip:
  "ScriptElement_from_dict h i (ScriptElement_to_dict e) = Inr (ScriptElement_post_init h i e)"
  by (cases e) (simp add: ScriptElement_from_dict_def ScriptElement_to_dict_def type_of_value_type_value
      ill_typed_def get_str_def get_bool_def)

lemma FileEntry_post_init_id:
  "fe_hash f \<noteq> [] \<or> fe_is_directory f \<or> \<not> file_exists h (fe_source_path f)
     \<Longrightarrow> FileEntry_post_init h f = f"
  by (auto simp: FileEntry_post_init_def)

lemma ScriptElement_post_init_id: "se_id e \<noteq> [] \<Longrightarrow> ScriptElement_post_init h i e = e"
  by (simp add: ScriptElement_post_init_def)

lemma list_all_is_str: "list_all is_str (map PStr xs)"
  by (induction xs) auto

lemma check_project_kwargs: "check_kwargs ProjectConfig_fields [] (ProjectConfig_to_dict p) = None"
  by (simp add: check_kwargs_def ProjectConfig_fields_def ProjectConfig_to_dict_def ill_typed_def
      str_list_def list_all_is_str)

lemma map_result_PDict_comp:
  "map_result (\<lambda>x. case x of PDict kvs \<Rightarrow> Inr kvs | _ \<Rightarrow> Inl e) (map (PDict \<circ> g) xs)
     = Inr (map g xs)"
  by (induction xs) auto

lemma entry_dicts_files:
  "entry_dicts (ProjectConfig_to_dict p) ''files'' = Inr (map FileEntry_to_dict (files p))"
  by (simp add: entry_dicts_def ProjectConfig_to_dict_def dicts_def map_result_PDict_comp)

lemma entry_dicts_script_elements:
  "entry_dicts (ProjectConfig_to_dict p) ''script_elements''
     = Inr (map ScriptElement_to_dict (script_elements p))"
  by (simp add: entry_dicts_def ProjectConfig_to_dict_def dicts_def map_result_PDict_comp)

lemma entry_dicts_shortcuts:
  "entry_dicts (ProjectConfig_to_dict p) ''shortcuts''
     = Inr (map ShortcutConfig_to_dict (shortcuts p))"
  by (simp add: entry_dicts_def ProjectConfig_to_dict_def dicts_def map_result_PDict_comp)

lemma entry_dicts_registry_entries:
  "entry_dicts (ProjectConfig_to_dict p) ''registry_entries''
     = Inr (map RegistryEntry_to_dict (registry_entries p))"
  by (simp add: entry_dicts_def ProjectConfig_to_dict_def dicts_def map_result_PDict_comp)

lemma entry_dicts_dependencies:
  "entry_dicts (ProjectConfig_to_dict p) ''dependencies''
     = Inr (map Dependency_to_dict (dependencies p))"
  by (simp add: entry_dicts_def ProjectConfig_to_dict_def dicts_def map_result_PDict_comp)

lemma un_str_o_PStr: "un_str \<circ> PStr = id"
  by (rule ext) simp

lemma build_project_to_dict:
  "build_project h (ProjectConfig_to_dict p) (files p) (script_elements p) (shortcuts p)
     (registry_entries p) (dependencies p) = p"
  by (cases p)
     (simp add: build_project_def ProjectConfig_to_dict_def get_str_def get_bool_def
        get_str_list_def str_list_def un_str_o_PStr)

lemma from_dict_to_dict:
  assumes "\<forall>e \<in> set (script_elements p). se_id e \<noteq> []"
    and "\<forall>f \<in> set (files p).
           fe_hash f \<noteq> [] \<or> fe_is_directory f \<or> \<not> file_exists h (fe_source_path f)"
  shows "ProjectConfig_from_dict h (ProjectConfig_to_dict p) = Inr p"
proof -
  have fs: "from_entries (ProjectConfig_to_dict p) ''files'' (FileEntry_from_dict h) = Inr (files p)"
    using assms(2)
    by (auto simp: from_entries_def entry_dicts_files
        FileEntry_roundtrip intro!: map_result_map FileEntry_post_init_id)
  have es: "script_elements_from h (ProjectConfig_to_dict p) = Inr (script_elements p)"
    using assms(1)
    by (auto simp: script_elements_from_def entry_dicts_script_elements 
        ScriptElement_roundtrip ScriptElement_post_init_id intro!: map_result_enumerate)
  have ss: "from_entries (ProjectConfig_to_dict p) ''shortcuts'' ShortcutConfig_from_dict
      = Inr (shortcuts p)"
    by (simp add: from_entries_def entry_dicts_shortcuts map_result_map ShortcutConfig_roundtrip)
  have rs: "from_entries (ProjectConfig_to_dict p) ''registry_entries'' RegistryEntry_from_dict
      = Inr (registry_entries p)"
    by (simp add: from_entries_def entry_dicts_registry_entries map_result_map RegistryEntry_roundtrip)
  have ds: "from_entries (ProjectConfig_to_dict p) ''dependencies'' Dependency_from_dict
      = Inr (dependencies p)"
    by (simp add: from_entries_def entry_dicts_dependencies map_result_map Dependency_roundtrip)
  show ?thesis
    unfolding ProjectConfig_from_dict_def
    by (simp only: fs es ss rs ds check_project_kwargs build_project_to_dict sum.case option.case)
qed

lemma from_dict_build:
  assumes "ProjectConfig_from_dict h data = Inr q"
  shows "\<exists>fs es ss rs ds. q = build_project h data fs es ss rs ds"
  using assms unfolding ProjectConfig_from_dict_def
  by (simp split: sum.splits option.splits) blast

lemma load_old_document:
  "ProjectConfig_from_dict demo_host old_document
     = Inr (build_project demo_host old_document [] [] [] [] [])"
  by (simp add: ProjectConfig_from_dict_def old_document_def from_entries_def entry_dicts_def
      script_elements_from_def check_kwargs_def ill_typed_def ProjectConfig_fields_def)

text \<open>
  C7. The claim is that writing and reading back reproduces every project. It does not
  when a file entry has an empty hash and its source exists when the document is read:
  \<open>FileEntry.__post_init__\<close> runs again on reading and computes the hash. For
  \<open>stale_project\<close> on \<open>demo_host\<close> the project read back differs from the one saved.
\<close>

theorem stale_hash_counterexample:
  "load_project demo_host (snd (save_project demo_host stale_project))
     \<noteq> Inr (fst (save_project demo_host stale_project))"
  by code_simp

text \<open>
  C7, amended. When every script element has an identifier (which its constructor
  ensures) and every file entry has a hash, is a directory, or has a source that does
  not exist when the document is read, then reading the document that \<open>save_project\<close>
  wrote gives the project as \<open>save_project\<close> left it (with its new \<open>modified\<close> stamp), field
  for field. And whenever a document is read, a missing \<open>company\<close> becomes the empty
  string, a missing \<open>copyright\<close> becomes \<open>Copyright (c) year\<close> with the copyright sign and
  the current year, and the missing flags take their defaults: \<open>create_uninstaller\<close>,
  \<open>overwrite_existing\<close>, \<open>require_admin\<close> and \<open>onefile\<close> true; \<open>silent_mode\<close>,
  \<open>license_enabled\<close>, \<open>console\<close> and \<open>sign_installer\<close> false.
\<close>

theorem save_load_roundtrip:
  "((\<forall>e \<in> set (script_elements p). se_id e \<noteq> [])
      \<and> (\<forall>f \<in> set (files p).
            fe_hash f \<noteq> [] \<or> fe_is_directory f \<or> \<not> file_exists h (fe_source_path f))
     \<longrightarrow> load_project h (snd (save_project h0 p)) = Inr (fst (save_project h0 p)))
   \<and> (ProjectConfig_from_dict h data = Inr q \<longrightarrow>
        (map_of data ''company'' = None \<longrightarrow> company q = [])
        \<and> (map_of data ''copyright'' = None \<longrightarrow>
             copyright q = ''Copyright '' @ [CHR 0xA9] @ '' '' @ show_int (now_year h))
        \<and> (map_of data ''create_uninstaller'' = None \<longrightarrow> create_uninstaller q)
        \<and> (map_of data ''silent_mode'' = None \<longrightarrow> \<not> silent_mode q)
        \<and> (map_of data ''overwrite_existing'' = None \<longrightarrow> overwrite_existing q)
        \<and> (map_of data ''require_admin'' = None \<longrightarrow> require_admin q)
        \<and> (map_of data ''license_enabled'' = None \<longrightarrow> \<not> license_enabled q)
        \<and> (map_of data ''onefile'' = None \<longrightarrow> onefile q)
        \<and> (map_of data ''console'' = None \<longrightarrow> \<not> console q)
        \<and> (map_of data ''sign_installer'' = None \<longrightarrow> \<not> sign_installer q))"
proof (intro conjI impI)
  assume a: "(\<forall>e \<in> set (script_elements p). se_id e \<noteq> [])
      \<and> (\<forall>f \<in> set (files p).
            fe_hash f \<noteq> [] \<or> fe_is_directory f \<or> \<not> file_exists h (fe_source_path f))"
  show "load_project h (snd (save_project h0 p)) = Inr (fst (save_project h0 p))"
    unfolding load_project_def save_project_def Let_def fst_conv snd_conv
    by (rule from_dict_to_dict) (use a in simp_all)
next
  assume "ProjectConfig_from_dict h data = Inr q"
  then obtain fs es ss rs ds where q: "q = build_project h data fs es ss rs ds"
    using from_dict_build by blast
  {
    assume "map_of data ''company'' = None"
    then show "company q = []" by (simp add: q build_project_def get_str_def)
  next
    assume "map_of data ''copyright'' = None"
    then show "copyright q = ''Copyright '' @ [CHR 0xA9] @ '' '' @ show_int (now_year h)"
      by (simp add: q build_project_def get_str_def default_copyright_def)
  next
    assume "map_of data ''create_uninstaller'' = None"
    then show "create_uninstaller q" by (simp add: q build_project_def get_bool_def)
  next
    assume "map_of data ''silent_mode'' = None"
    then show "\<not> silent_mode q" by (simp add: q build_project_def get_bool_def)
  next
    assume "map_of data ''overwrite_existing'' = None"
    then show "overwrite_existing q" by (simp add: q build_project_def get_bool_def)
  next
    assume "map_of data ''require_admin'' = None"
    then show "require_admin q" by (simp add: q build_project_def get_bool_def)
  next
    assume "map_of data ''license_enabled'' = None"
    then show "\<not> license_enabled q" by (simp add: q build_project_def get_bool_def)
  next
    assume "map_of data ''onefile'' = None"
    then show "onefile q" by (simp add: q build_project_def get_bool_def)
  next
    assume "map_of data ''console'' = None"
    then show "\<not> console q" by (simp add: q build_project_def get_bool_def)
  next
    assume "map_of data ''sign_installer'' = None"
    then show "\<not> sign_installer q" by (simp add: q build_project_def get_bool_def)
  }
qed

theorem save_load_roundtrip_witness:
  "load_project demo_host (snd (save_project demo_host demo_project))
     = Inr (fst (save_project demo_host demo_project))
   \<and> company (build_project demo_host old_document [] [] [] [] []) = []
   \<and> copyright (build_project demo_host old_document [] [] [] [] [])
       = ''Copyright '' @ [CHR 0xA9] @ '' '' @ show_int 2026
   \<and> create_uninstaller (build_project demo_host old_document [] [] [] [] [])
   \<and> \<not> silent_mode (build_project demo_host old_document [] [] [] [] [])
   \<and> overwrite_existing (build_project demo_host old_document [] [] [] [] [])"
proof -
  have ids: "\<forall>e \<in> set (script_elements demo_project). se_id e \<noteq> []"
    by (simp add: demo_project_def demo_script_def)
  have hs: "\<forall>f \<in> set (files demo_project).
      fe_hash f \<noteq> [] \<or> fe_is_directory f \<or> \<not> file_exists demo_host (fe_source_path f)"
    by (simp add: demo_project_def demo_file_def)
  have y: "now_year demo_host = 2026"
    by (simp add: demo_host_def)
  have m: "map_of old_document ''company'' = None" "map_of old_document ''copyright'' = None"
    "map_of old_document ''create_uninstaller'' = None" "map_of old_document ''silent_mode'' = None"
    "map_of old_document ''overwrite_existing'' = None"
    by (simp_all add: old_document_def)
  show ?thesis
    using save_load_roundtrip[of demo_project demo_host demo_host old_document
        "build_project demo_host old_document [] [] [] [] []"]
      ids hs load_old_document m y
    by simp
qed

end
